theory Spec2Isabelle
  imports Complex_Main
begin

section \<open>Mount-Maker: the mount geometry calculator\<close>

text \<open>
  A shallow embedding of the computational core of the application: the derived
  values \<open>apertureSize\<close>, \<open>boardSize\<close> and \<open>aperturePosition\<close> of
  \<^verbatim>\<open>src/App.tsx\<close>, the state transition \<open>toggleOrientation\<close>, the paper-size
  table of \<^verbatim>\<open>src/constants.ts\<close> and the response mapping of
  \<^verbatim>\<open>src/services/geminiService.ts\<close>.
\<close>

subsection \<open>Numbers\<close>

text \<open>
  A TypeScript \<^verbatim>\<open>number\<close> is an IEEE 754 binary64 value. The type \<open>number\<close> has
  the finite values, carried as the real number they denote, the two infinities and
  NaN. The two zeros are one value \<open>Fin 0\<close>, as \<^verbatim>\<open>===\<close> has them: the source has
  no operation that tells them apart.
\<close>

datatype number = Fin real | Infinity | NegInfinity | NaN

text \<open>
  Rounding to the nearest binary64 value, ties to even. For a magnitude \<open>a > 0\<close>
  the exponent \<open>ilog2 a\<close> is the \<open>e\<close> with \<open>pow2 e \<le> a < pow2 (e + 1)\<close>; it is
  read from the length of the binary numeral of \<open>\<lfloor>a\<rfloor>\<close>, or of \<open>\<lfloor>1 / a\<rfloor>\<close> below
  one. The spacing of the binary64 values around \<open>a\<close> is \<open>pow2 (e - 52)\<close>, with \<open>e\<close>
  not below \<open>-1022\<close> (the subnormal range); \<open>a\<close> is rounded to a multiple of the
  spacing, and a result of \<open>pow2 1024\<close> or more is an infinity.
\<close>

fun numlen :: "num \<Rightarrow> nat" where
  "numlen num.One = 1"
| "numlen (num.Bit0 n) = Suc (numlen n)"
| "numlen (num.Bit1 n) = Suc (numlen n)"

definition bitlength :: "int \<Rightarrow> int" where
  "bitlength k = int (numlen (num_of_nat (nat k)))"

definition pow2 :: "int \<Rightarrow> real" where
  "pow2 e = (if 0 \<le> e then 2 ^ nat e else 1 / 2 ^ nat (- e))"

definition ilog2 :: "real \<Rightarrow> int" where
  "ilog2 a =
    (if 1 \<le> a then bitlength \<lfloor>a\<rfloor> - 1
     else (let k = bitlength \<lfloor>1 / a\<rfloor> - 1 in if a = pow2 (- k) then - k else - k - 1))"

definition round_half_even :: "real \<Rightarrow> int" where
  "round_half_even x =
    (let n = \<lfloor>x\<rfloor>; f = x - of_int n
     in if f < 1 / 2 then n else if 1 / 2 < f then n + 1 else if even n then n else n + 1)"

definition quantize :: "real \<Rightarrow> real \<Rightarrow> real" where
  "quantize a ulp = of_int (round_half_even (a / ulp)) * ulp"

definition round_magnitude :: "real \<Rightarrow> real" where
  "round_magnitude a = quantize a (pow2 (max (ilog2 a) (- 1022) - 52))"

definition pack :: "bool \<Rightarrow> real \<Rightarrow> number" where
  "pack negative r =
     (if pow2 1024 \<le> r then (if negative then NegInfinity else Infinity)
      else Fin (if negative then - r else r))"

text \<open>
  \<open>double x\<close> is the binary64 value nearest to the real \<open>x\<close>: the value of the
  numeric literal \<open>x\<close> of the source, and the rounding of every arithmetic result.
\<close>

definition double :: "real \<Rightarrow> number" where
  "double q = (if q = 0 then Fin 0 else pack (q < 0) (round_magnitude \<bar>q\<bar>))"

text \<open>Half the spacing of the subnormal values.\<close>

definition tiny :: real where
  "tiny = 1 / 2 ^ 1075"

text \<open>
  The arithmetic of the source: \<open>+\<close>, \<open>-\<close> and \<open>*\<close> round the exact result of two
  finite operands; the other cases are those of IEEE 754.
\<close>

instantiation number :: "{plus, minus, times}"
begin

fun plus_number :: "number \<Rightarrow> number \<Rightarrow> number" where
  "NaN + y = NaN"
| "x + NaN = NaN"
| "Infinity + NegInfinity = NaN"
| "NegInfinity + Infinity = NaN"
| "Infinity + y = Infinity"
| "x + Infinity = Infinity"
| "NegInfinity + y = NegInfinity"
| "x + NegInfinity = NegInfinity"
| "Fin a + Fin b = double (a + b)"

fun minus_number :: "number \<Rightarrow> number \<Rightarrow> number" where
  "NaN - y = NaN"
| "x - NaN = NaN"
| "Infinity - Infinity = NaN"
| "NegInfinity - NegInfinity = NaN"
| "Infinity - y = Infinity"
| "x - NegInfinity = Infinity"
| "NegInfinity - y = NegInfinity"
| "x - Infinity = NegInfinity"
| "Fin a - Fin b = double (a - b)"

fun times_number :: "number \<Rightarrow> number \<Rightarrow> number" where
  "NaN * y = NaN"
| "x * NaN = NaN"
| "Fin a * Fin b = double (a * b)"
| "Fin a * Infinity = (if a = 0 then NaN else if 0 < a then Infinity else NegInfinity)"
| "Fin a * NegInfinity = (if a = 0 then NaN else if 0 < a then NegInfinity else Infinity)"
| "Infinity * Fin b = (if b = 0 then NaN else if 0 < b then Infinity else NegInfinity)"
| "NegInfinity * Fin b = (if b = 0 then NaN else if 0 < b then NegInfinity else Infinity)"
| "Infinity * Infinity = Infinity"
| "Infinity * NegInfinity = NegInfinity"
| "NegInfinity * Infinity = NegInfinity"
| "NegInfinity * NegInfinity = Infinity"

instance ..

end

text \<open>
  The source divides only by the literal \<^verbatim>\<open>2\<close>: \<open>half x\<close> is \<^verbatim>\<open>x / 2\<close>.
\<close>

fun half :: "number \<Rightarrow> number" where
  "half (Fin a) = double (a / 2)"
| "half x = x"

text \<open>
  \<^verbatim>\<open>Math.max\<close> and \<^verbatim>\<open>Math.min\<close> of two arguments: NaN if either is NaN.
\<close>

fun Math_max :: "number \<Rightarrow> number \<Rightarrow> number" where
  "Math_max NaN y = NaN"
| "Math_max x NaN = NaN"
| "Math_max Infinity y = Infinity"
| "Math_max x Infinity = Infinity"
| "Math_max NegInfinity y = y"
| "Math_max x NegInfinity = x"
| "Math_max (Fin a) (Fin b) = Fin (max a b)"

fun Math_min :: "number \<Rightarrow> number \<Rightarrow> number" where
  "Math_min NaN y = NaN"
| "Math_min x NaN = NaN"
| "Math_min NegInfinity y = NegInfinity"
| "Math_min x NegInfinity = NegInfinity"
| "Math_min Infinity y = y"
| "Math_min x Infinity = x"
| "Math_min (Fin a) (Fin b) = Fin (min a b)"

text \<open>The real number a finite value denotes (and \<open>0\<close> for the others).\<close>

fun val :: "number \<Rightarrow> real" where
  "val (Fin a) = a"
| "val x = 0"

subsection \<open>Data model (\<^verbatim>\<open>src/types.ts\<close>)\<close>

record Dimensions =
  width :: number
  height :: number

text \<open>
  \<^verbatim>\<open>BorderConfig\<close>. The field \<^verbatim>\<open>top\<close> is named \<open>top_b\<close>, since \<open>top\<close> is
  the greatest element of an order in HOL. The record is polymorphic in the type of
  its entries: the stored configuration holds numbers, the advisory mapping fills
  the same shape with unvalidated values of the parsed response.
\<close>

record 'n BorderConfig =
  top_b :: 'n
  bottom :: 'n
  left :: 'n
  right :: 'n

datatype Mode = FixedBoard | CustomBorders

datatype Orientation = portrait | landscape

record MountConfig =
  photoWidth :: number
  photoHeight :: number
  photoBorder :: number
  underlap :: number
  mountOffset :: number
  minBorderWidth :: number
  boardPreset :: string
  customBoardSize :: Dimensions
  mode :: Mode
  manualBorders :: "number BorderConfig"
  orientation :: Orientation

text \<open>
  \<^verbatim>\<open>PaperSize\<close> has the two fields of \<^verbatim>\<open>Dimensions\<close> and a name.
\<close>

record PaperSize = Dimensions +
  name :: string

subsection \<open>The paper-size table (\<^verbatim>\<open>src/constants.ts\<close>)\<close>

definition PAPER_SIZES :: "PaperSize list" where
  "PAPER_SIZES =
    [ \<lparr>width = double 841, height = double 1189, name = ''A0''\<rparr>,
      \<lparr>width = double 594, height = double 841, name = ''A1''\<rparr>,
      \<lparr>width = double 420, height = double 594, name = ''A2''\<rparr>,
      \<lparr>width = double 297, height = double 420, name = ''A3''\<rparr>,
      \<lparr>width = double 210, height = double 297, name = ''A4''\<rparr>,
      \<lparr>width = double 148, height = double 210, name = ''A5''\<rparr>,
      \<lparr>width = double 215.9, height = double 279.4, name = ''Letter''\<rparr>,
      \<lparr>width = double 215.9, height = double 355.6, name = ''Legal''\<rparr>,
      \<lparr>width = double 279.4, height = double 431.8, name = ''Tabloid''\<rparr> ]"

subsection \<open>The derived geometry (\<^verbatim>\<open>src/App.tsx\<close>, lines 95 to 152)\<close>

text \<open>
  The position of the aperture, \<^verbatim>\<open>{ x: aX, y: aY }\<close>; the fields are named
  \<open>x_pos\<close> and \<open>y_pos\<close> to leave \<open>x\<close> and \<open>y\<close> free as variables.
\<close>

record Position =
  x_pos :: number
  y_pos :: number

record Geometry =
  boardSize :: Dimensions
  aperturePosition :: Position

text \<open>Step 1: the aperture, from the photo and its visible border alone.\<close>

definition apertureSize :: "MountConfig \<Rightarrow> Dimensions" where
  "apertureSize config =
    \<lparr> width = photoWidth config + (photoBorder config * double 2),
      height = photoHeight config + (photoBorder config * double 2) \<rparr>"

text \<open>
  Step 2: the body of the second \<^verbatim>\<open>useMemo\<close>, a function of its two dependencies
  \<^verbatim>\<open>config\<close> and \<^verbatim>\<open>apertureSize\<close>. The pair \<open>(bWidth, bHeight)\<close> is the value of the
  two mutable locals after the preset branch.
\<close>

definition boardAndAperture :: "MountConfig \<Rightarrow> Dimensions \<Rightarrow> Geometry" where
  "boardAndAperture config apSize =
    (if mode config = FixedBoard then
       (let (bWidth, bHeight) =
              (if boardPreset config = ''Custom'' then
                 (width (customBoardSize config), height (customBoardSize config))
               else
                 (let preset = find (\<lambda>p. name p = boardPreset config) PAPER_SIZES;
                      pW = (case preset of Some p \<Rightarrow> width p | None \<Rightarrow> double 420);
                      pH = (case preset of Some p \<Rightarrow> height p | None \<Rightarrow> double 594)
                  in if orientation config = landscape
                     then (Math_max pW pH, Math_min pW pH)
                     else (Math_min pW pH, Math_max pW pH)));
            totalMarginX = bWidth - width apSize;
            totalMarginY = bHeight - height apSize;
            aX = half totalMarginX;
            aY = half totalMarginY - mountOffset config
        in \<lparr> boardSize = \<lparr>width = bWidth, height = bHeight\<rparr>,
             aperturePosition = \<lparr>x_pos = aX, y_pos = aY\<rparr> \<rparr>)
     else
       (let borders = manualBorders config;
            bWidth = width apSize + left borders + right borders;
            bHeight = height apSize + top_b borders + bottom borders;
            aX = left borders;
            aY = top_b borders
        in \<lparr> boardSize = \<lparr>width = bWidth, height = bHeight\<rparr>,
             aperturePosition = \<lparr>x_pos = aX, y_pos = aY\<rparr> \<rparr>))"

text \<open>The calculator as the component evaluates it on every render.\<close>

definition geometry :: "MountConfig \<Rightarrow> Geometry" where
  "geometry config = boardAndAperture config (apertureSize config)"

text \<open>
  The initial configuration of the component (\<^verbatim>\<open>useState\<close>, lines 68 to 80).
\<close>

definition defaultConfig :: MountConfig where
  "defaultConfig =
    \<lparr> photoWidth = double 203.2, photoHeight = double 254, photoBorder = double 6.35,
      underlap = double 12.7, mountOffset = double 7.62, minBorderWidth = double 50.8,
      boardPreset = ''A2'',
      customBoardSize = \<lparr>width = double 420, height = double 594\<rparr>, mode = FixedBoard,
      manualBorders =
        \<lparr>top_b = double 50, bottom = double 50, left = double 50, right = double 50\<rparr>,
      orientation = portrait \<rparr>"

text \<open>
  The borders shown under "Resulting Borders" in FixedBoard mode (lines 359 and 360),
  before the conversion to the display unit: the top border is \<^verbatim>\<open>aperturePosition.y\<close>,
  the bottom border is
  \<^verbatim>\<open>boardSize.height - aperturePosition.y - apertureSize.height\<close>.
\<close>

definition topMargin :: "MountConfig \<Rightarrow> number" where
  "topMargin config = y_pos (aperturePosition (geometry config))"

definition bottomMargin :: "MountConfig \<Rightarrow> number" where
  "bottomMargin config =
    height (boardSize (geometry config)) - y_pos (aperturePosition (geometry config))
      - height (apertureSize config)"

text \<open>
  The numeric fields of a configuration. A configuration is finite when all of them
  are finite values, and bounded by \<open>2 ^ n\<close> when all of them are finite and of
  magnitude at most \<open>2 ^ n\<close>.
\<close>

definition numericFields :: "MountConfig \<Rightarrow> number list" where
  "numericFields config =
    [ photoWidth config, photoHeight config, photoBorder config, underlap config,
      mountOffset config, minBorderWidth config,
      width (customBoardSize config), height (customBoardSize config),
      top_b (manualBorders config), bottom (manualBorders config),
      left (manualBorders config), right (manualBorders config) ]"

fun bounded_by :: "nat \<Rightarrow> number \<Rightarrow> bool" where
  "bounded_by n (Fin a) = (\<bar>a\<bar> \<le> 2 ^ n)"
| "bounded_by n x = False"

fun finite_number :: "number \<Rightarrow> bool" where
  "finite_number (Fin a) = True"
| "finite_number x = False"

definition finiteConfig :: "MountConfig \<Rightarrow> bool" where
  "finiteConfig config = list_all finite_number (numericFields config)"

definition boundedConfig :: "nat \<Rightarrow> MountConfig \<Rightarrow> bool" where
  "boundedConfig n config = list_all (bounded_by n) (numericFields config)"

text \<open>
  Configurations of the examples: the aperture of 215.9 by 266.7 with the borders
  50, 60, 45, 45 in CustomBorders mode; the initial configuration with no mount
  offset; and the initial configuration with a photo border of \<^verbatim>\<open>1e308\<close>.
\<close>

definition customBordersExample :: MountConfig where
  "customBordersExample =
    defaultConfig
      \<lparr> photoWidth := double 215.9, photoHeight := double 266.7, photoBorder := double 0,
        mode := CustomBorders,
        manualBorders :=
          \<lparr>top_b = double 50, bottom = double 60, left = double 45, right = double 45\<rparr> \<rparr>"

definition centredExample :: MountConfig where
  "centredExample = defaultConfig\<lparr>mountOffset := double 0\<rparr>"

definition overflowExample :: MountConfig where
  "overflowExample = defaultConfig\<lparr>photoBorder := double (10 ^ 308)\<rparr>"

text \<open>
  The six numbers the calculator gives: the aperture size, the board size and the
  aperture position.
\<close>

definition outputs :: "MountConfig \<Rightarrow> number list" where
  "outputs config =
    [ width (apertureSize config), height (apertureSize config),
      width (boardSize (geometry config)), height (boardSize (geometry config)),
      x_pos (aperturePosition (geometry config)),
      y_pos (aperturePosition (geometry config)) ]"

text \<open>
  Degenerate configurations: negative manual borders in CustomBorders mode, and a
  photo wider than the board with a mount offset larger than the margin in
  FixedBoard mode.
\<close>

definition negativeBordersExample :: MountConfig where
  "negativeBordersExample =
    defaultConfig
      \<lparr> mode := CustomBorders,
        manualBorders :=
          \<lparr> top_b = double (- 20), bottom = double 50,
            left = double (- 10), right = double (- 300) \<rparr> \<rparr>"

definition largeOffsetExample :: MountConfig where
  "largeOffsetExample = defaultConfig\<lparr>photoWidth := double 500, mountOffset := double 200\<rparr>"

subsection \<open>The orientation toggle (\<^verbatim>\<open>src/App.tsx\<close>, lines 165 to 187)\<close>

text \<open>
  The updater passed to \<^verbatim>\<open>setConfig\<close>: from the previous configuration to the next.
\<close>

definition toggleOrientation :: "MountConfig \<Rightarrow> MountConfig" where
  "toggleOrientation prev =
    (let newOrientation = (if orientation prev = portrait then landscape else portrait);
         newPhotoWidth = photoHeight prev;
         newPhotoHeight = photoWidth prev;
         newCustomBoard = \<lparr> width = height (customBoardSize prev),
                            height = width (customBoardSize prev) \<rparr>
     in prev\<lparr> orientation := newOrientation,
              photoWidth := newPhotoWidth,
              photoHeight := newPhotoHeight,
              customBoardSize := newCustomBoard \<rparr>)"

subsection \<open>The advisory mapping (\<^verbatim>\<open>src/services/geminiService.ts\<close>, lines 63 to 84)\<close>

text \<open>
  The value \<^verbatim>\<open>result\<close> is whatever \<^verbatim>\<open>JSON.parse\<close> returned: the mapping reads it
  without checking any type, so the model keeps the JavaScript values as they are.
  An object is its own-property map; \<open>JUndefined\<close> is the value of a property that is
  not there.
\<close>

datatype jsvalue =
    JUndefined
  | JNull
  | JBool bool
  | JNumber number
  | JString string
  | JArray "jsvalue list"
  | JObject "string \<Rightarrow> jsvalue option"

datatype error = Error string | TypeError

text \<open>The test \<^verbatim>\<open>!v\<close> is \<open>\<not> truthy v\<close>.\<close>

fun truthy :: "jsvalue \<Rightarrow> bool" where
  "truthy JUndefined = False"
| "truthy JNull = False"
| "truthy (JBool b) = b"
| "truthy (JNumber n) = (n \<noteq> Fin 0 \<and> n \<noteq> NaN)"
| "truthy (JString s) = (s \<noteq> [])"
| "truthy (JArray vs) = True"
| "truthy (JObject m) = True"

text \<open>
  The property read \<^verbatim>\<open>v.k\<close>, for the keys this file reads (none of them is a
  property of a prototype, nor an index or \<^verbatim>\<open>length\<close>): reading a property of
  \<^verbatim>\<open>undefined\<close> or \<^verbatim>\<open>null\<close> throws a \<^verbatim>\<open>TypeError\<close>, an object gives its entry
  or \<^verbatim>\<open>undefined\<close>, every other value gives \<^verbatim>\<open>undefined\<close>.
\<close>

fun getProp :: "jsvalue \<Rightarrow> string \<Rightarrow> error + jsvalue" where
  "getProp JUndefined k = Inl TypeError"
| "getProp JNull k = Inl TypeError"
| "getProp (JObject m) k = Inr (case m k of Some v \<Rightarrow> v | None \<Rightarrow> JUndefined)"
| "getProp (JBool b) k = Inr JUndefined"
| "getProp (JNumber n) k = Inr JUndefined"
| "getProp (JString s) k = Inr JUndefined"
| "getProp (JArray vs) k = Inr JUndefined"

text \<open>Sequencing of steps that may throw: the first error ends the evaluation.\<close>

fun bindE :: "error + 'a \<Rightarrow> ('a \<Rightarrow> error + 'b) \<Rightarrow> error + 'b" where
  "bindE (Inl e) f = Inl e"
| "bindE (Inr v) f = f v"

text \<open>
  The part of \<^verbatim>\<open>Partial<MountConfig>\<close> that the mapping fills, and \<^verbatim>\<open>AIAdvice\<close>.
\<close>

record SuggestedConfig =
  sc_photoBorder :: jsvalue
  sc_mountOffset :: jsvalue
  sc_manualBorders :: "jsvalue BorderConfig"
  sc_mode :: Mode

record AIAdvice =
  suggestion :: jsvalue
  reasoning :: jsvalue
  suggestedConfig :: "SuggestedConfig option"

text \<open>
  \<^verbatim>\<open>getMountAdvice\<close> from the parsed \<^verbatim>\<open>result\<close> on. The \<^verbatim>\<open>catch\<close> block logs and
  throws the same error again, so an error of any step is the outcome of the call.
  The properties are read in the order of the object literal.
\<close>

definition getMountAdvice_result :: "jsvalue \<Rightarrow> error + AIAdvice" where
  "getMountAdvice_result result =
    bindE (getProp result ''suggestedValues'') (\<lambda>sv.
      if \<not> truthy sv then Inl (Error ''Invalid response from AI'')
      else
        bindE (getProp result ''suggestion'') (\<lambda>sug.
        bindE (getProp result ''reasoning'') (\<lambda>rea.
        bindE (getProp sv ''photoBorder'') (\<lambda>pb.
        bindE (getProp sv ''mountOffset'') (\<lambda>mo.
        bindE (getProp sv ''topBorder'') (\<lambda>tb.
        bindE (getProp sv ''bottomBorder'') (\<lambda>bb.
        bindE (getProp sv ''sideBorder'') (\<lambda>lb.
        bindE (getProp sv ''sideBorder'') (\<lambda>rb.
          Inr \<lparr> suggestion = sug,
                reasoning = rea,
                suggestedConfig = Some
                  \<lparr> sc_photoBorder = pb,
                    sc_mountOffset = mo,
                    sc_manualBorders =
                      \<lparr>top_b = tb, bottom = bb, left = lb, right = rb\<rparr>,
                    sc_mode = CustomBorders \<rparr> \<rparr>)))))))))"

text \<open>
  A response as the schema of the request describes it, in inches: the value of
  \<^verbatim>\<open>suggestedValues\<close>, the whole parsed object, and the advice made from it.
\<close>

definition sampleValues :: "string \<Rightarrow> jsvalue option" where
  "sampleValues =
     [''photoBorder'' \<mapsto> JNumber (double 0.25), ''mountOffset'' \<mapsto> JNumber (double 0.3),
      ''topBorder'' \<mapsto> JNumber (double 2), ''bottomBorder'' \<mapsto> JNumber (double 2.5),
      ''sideBorder'' \<mapsto> JNumber (double 2)]"

definition sampleResult :: "string \<Rightarrow> jsvalue option" where
  "sampleResult =
     [''suggestion'' \<mapsto> JString ''Weighted bottom'',
      ''reasoning'' \<mapsto> JString ''Balance'',
      ''suggestedValues'' \<mapsto> JObject sampleValues]"

definition sampleAdvice :: AIAdvice where
  "sampleAdvice =
     \<lparr> suggestion = JString ''Weighted bottom'', reasoning = JString ''Balance'',
       suggestedConfig = Some
         \<lparr> sc_photoBorder = JNumber (double 0.25), sc_mountOffset = JNumber (double 0.3),
           sc_manualBorders =
             \<lparr>top_b = JNumber (double 2), bottom = JNumber (double 2.5), left = JNumber (double 2), right = JNumber (double 2)\<rparr>,
           sc_mode = CustomBorders \<rparr> \<rparr>"

section \<open>Properties\<close>

subsection \<open>The rounding error of a binary64 operation\<close>

lemma pow2_powi: "pow2 e = 2 powi e"
  by (simp add: pow2_def power_int_def field_simps)

lemma pow2_pos: "0 < pow2 e"
  by (simp add: pow2_powi)

lemma pow2_add: "pow2 (a + b) = pow2 a * pow2 b"
  by (simp add: pow2_powi power_int_add)

lemma pow2_mono: "a \<le> b \<Longrightarrow> pow2 a \<le> pow2 b"
  by (simp add: pow2_powi power_int_increasing)

lemma numlen_pos: "numlen w \<noteq> 0"
  by (cases w) simp_all

lemma numlen_bounds: "2 ^ (numlen w - 1) \<le> (numeral w :: int) \<and> (numeral w :: int) < 2 ^ numlen w"
proof (induction w)
  case One
  show ?case by simp
next
  case (Bit0 w)
  have p: "(2::int) ^ numlen w = 2 * 2 ^ (numlen w - 1)"
    using numlen_pos [of w] by (cases "numlen w") simp_all
  have n: "(numeral (num.Bit0 w) :: int) = 2 * numeral w"
    by (rule numeral_Bit0_eq_double)
  have l: "numlen (num.Bit0 w) - 1 = numlen w" "(2::int) ^ numlen (num.Bit0 w) = 2 * 2 ^ numlen w"
    by simp_all
  show ?case
    unfolding n l using Bit0 p by linarith
next
  case (Bit1 w)
  have p: "(2::int) ^ numlen w = 2 * 2 ^ (numlen w - 1)"
    using numlen_pos [of w] by (cases "numlen w") simp_all
  have n: "(numeral (num.Bit1 w) :: int) = 2 * numeral w + 1"
    by (rule numeral_Bit1_eq_inc_double)
  have l: "numlen (num.Bit1 w) - 1 = numlen w" "(2::int) ^ numlen (num.Bit1 w) = 2 * 2 ^ numlen w"
    by simp_all
  show ?case
    unfolding n l using Bit1 p by linarith
qed

lemma bitlength_bounds:
  assumes "0 < k"
  shows "1 \<le> bitlength k" and "pow2 (bitlength k - 1) \<le> of_int k"
    and "of_int k + 1 \<le> pow2 (bitlength k)"
proof -
  define w where "w = num_of_nat (nat k)"
  have "0 < nat k"
    using assms by simp
  then have "nat_of_num w = nat k"
    unfolding w_def by (rule num_of_nat_inverse)
  then have "(numeral w :: nat) = nat k"
    by (simp only: nat_of_num_numeral)
  then have "int (numeral w) = int (nat k)"
    by (rule arg_cong)
  then have kw: "k = numeral w"
    using assms by (simp only: of_nat_numeral int_nat_eq if_True order_less_imp_le)
  have len: "bitlength k = int (numlen w)"
    by (simp add: bitlength_def w_def)
  show "1 \<le> bitlength k"
    using numlen_pos [of w] by (simp add: len)
  from numlen_bounds [of w]
  have lo: "2 ^ (numlen w - 1) \<le> k" and hi: "k < 2 ^ numlen w"
    by (simp_all add: kw)
  have "pow2 (bitlength k - 1) = of_int (2 ^ (numlen w - 1))"
    using numlen_pos [of w] by (simp add: len pow2_def nat_diff_distrib')
  also have "\<dots> \<le> of_int k"
    using lo by (simp only: of_int_le_iff)
  finally show "pow2 (bitlength k - 1) \<le> of_int k" .
  have "k + 1 \<le> 2 ^ numlen w"
    using hi by simp
  then have "(of_int (k + 1) :: real) \<le> of_int (2 ^ numlen w)"
    by (simp only: of_int_le_iff)
  then show "of_int k + 1 \<le> pow2 (bitlength k)"
    by (simp add: len pow2_def)
qed

lemma pow2_neg: "pow2 (- e) = 1 / pow2 e"
proof -
  have "pow2 (- e) * pow2 e = 1"
    using pow2_add [of "- e" e] by (simp add: pow2_def)
  then show ?thesis
    using pow2_pos [of e] by (simp add: field_simps)
qed

lemma pow2_strict_mono: "a < b \<Longrightarrow> pow2 a < pow2 b"
  by (simp add: pow2_powi power_int_strict_increasing)

lemma pow2_Suc: "pow2 (e + 1) = 2 * pow2 e"
  using pow2_add [of e 1] by (simp add: pow2_def)

lemma ilog2_bounds:
  assumes "0 < a"
  shows "pow2 (ilog2 a) \<le> a" and "a < pow2 (ilog2 a + 1)"
proof -
  have "pow2 (ilog2 a) \<le> a \<and> a < pow2 (ilog2 a + 1)"
  proof (cases "1 \<le> a")
    case True
    define k where "k = \<lfloor>a\<rfloor>"
    have k: "0 < k" "of_int k \<le> a" "a < of_int k + 1"
      using True by (simp_all add: k_def)
    from bitlength_bounds [OF k(1)] k True show ?thesis
      by (simp add: ilog2_def k_def [symmetric])
  next
    case False
    define b where "b = 1 / a"
    define k where "k = \<lfloor>b\<rfloor>"
    define j where "j = bitlength k - 1"
    have b: "1 < b" "a = 1 / b" "0 < b"
      using False assms by (simp_all add: b_def)
    have k: "0 < k" "of_int k \<le> b" "b < of_int k + 1"
      using b(1) by (simp_all add: k_def)
    from bitlength_bounds [OF k(1)]
    have "pow2 j \<le> of_int k" "of_int k + 1 \<le> pow2 (j + 1)"
      by (simp_all add: j_def)
    with k have jb: "pow2 j \<le> b" "b < pow2 (j + 1)"
      by linarith+
    have "1 / b \<le> 1 / pow2 j"
      using jb(1) pow2_pos [of j] by (simp add: frac_le)
    then have up: "a \<le> pow2 (- j)"
      by (simp add: pow2_neg b(2))
    have lo: "pow2 (- j - 1) < a"
    proof -
      have "pow2 (- j - 1) = 1 / pow2 (j + 1)"
        using pow2_neg [of "j + 1"] by simp
      also have "\<dots> < 1 / b"
        using jb(2) b(3) by (simp add: frac_less2)
      finally show ?thesis by (simp add: b(2))
    qed
    have il: "ilog2 a = (if a = pow2 (- j) then - j else - j - 1)"
      using False by (simp add: ilog2_def Let_def j_def k_def b_def)
    show ?thesis
    proof (cases "a = pow2 (- j)")
      case True
      have e: "ilog2 a = - j"
        unfolding il using True by (rule if_P)
      have "pow2 (- j) < pow2 (- j + 1)"
        by (rule pow2_strict_mono) simp
      then show ?thesis
        unfolding e using True by simp
    next
      case False
      have e: "ilog2 a = - j - 1"
        unfolding il using False by (rule if_not_P)
      show ?thesis
        unfolding e using lo up False by simp
    qed
  qed
  then show "pow2 (ilog2 a) \<le> a" and "a < pow2 (ilog2 a + 1)"
    by simp_all
qed

lemma round_half_even_error: "\<bar>of_int (round_half_even x) - x\<bar> \<le> 1 / 2"
  by (simp add: round_half_even_def Let_def)

lemma round_half_even_nonneg: "0 \<le> x \<Longrightarrow> 0 \<le> round_half_even x"
  by (simp add: round_half_even_def Let_def)

lemma quantize_error:
  assumes "0 < ulp"
  shows "\<bar>quantize a ulp - a\<bar> \<le> ulp / 2"
proof -
  have "quantize a ulp - a = (of_int (round_half_even (a / ulp)) - a / ulp) * ulp"
    using assms by (simp add: quantize_def field_simps)
  then have "\<bar>quantize a ulp - a\<bar> = \<bar>of_int (round_half_even (a / ulp)) - a / ulp\<bar> * ulp"
    using assms by (simp add: abs_mult)
  also have "\<dots> \<le> (1 / 2) * ulp"
    using round_half_even_error [of "a / ulp"] assms by (intro mult_right_mono) simp_all
  finally show ?thesis by simp
qed

lemma round_magnitude_error:
  assumes "0 < a"
  shows "\<bar>round_magnitude a - a\<bar> \<le> a / 2 ^ 53 + tiny"
proof -
  define e where "e = max (ilog2 a) (- 1022)"
  have q: "\<bar>round_magnitude a - a\<bar> \<le> pow2 (e - 52) / 2"
    unfolding round_magnitude_def e_def [symmetric]
    by (rule quantize_error) (rule pow2_pos)
  have half: "pow2 (e - 52) / 2 = pow2 e / 2 ^ 53"
    using pow2_add [of e "- 52"] by (simp add: pow2_neg) (simp add: pow2_def)
  show ?thesis
  proof (cases "- 1022 \<le> ilog2 a")
    case True
    then have "pow2 e \<le> a"
      using ilog2_bounds(1) [OF assms] by (simp add: e_def max_def)
    then have "pow2 e / 2 ^ 53 \<le> a / 2 ^ 53"
      by (simp add: divide_right_mono)
    moreover have "0 \<le> tiny" by (simp add: tiny_def)
    ultimately show ?thesis using q half by linarith
  next
    case False
    then have "e = - 1022" by (simp add: e_def max_def)
    then have "pow2 e / 2 ^ 53 = tiny"
      by (simp add: pow2_def tiny_def)
    moreover have "0 \<le> a / 2 ^ 53" using assms by simp
    ultimately show ?thesis using q half by linarith
  qed
qed

lemma round_magnitude_nonneg: "0 < a \<Longrightarrow> 0 \<le> round_magnitude a"
  using pow2_pos [of "max (ilog2 a) (- 1022) - 52"]
  by (simp add: round_magnitude_def quantize_def round_half_even_nonneg)

lemma double_not_NaN: "double q \<noteq> NaN"
  by (simp add: double_def pack_def)

lemma double_Fin_error:
  assumes "double q = Fin r"
  shows "\<bar>r - q\<bar> \<le> \<bar>q\<bar> / 2 ^ 53 + tiny"
proof (cases "q = 0")
  case True
  with assms show ?thesis by (simp add: double_def tiny_def)
next
  case False
  then have a: "0 < \<bar>q\<bar>" by simp
  from assms False have r: "r = (if q < 0 then - round_magnitude \<bar>q\<bar> else round_magnitude \<bar>q\<bar>)"
    by (simp add: double_def pack_def split: if_splits)
  from round_magnitude_error [OF a] r show ?thesis
    by (cases "q < 0") simp_all
qed

lemma double_finite:
  assumes "\<bar>q\<bar> \<le> 2 ^ 1023"
  shows "\<exists>r. double q = Fin r"
proof (cases "q = 0")
  case True
  then show ?thesis by (simp add: double_def)
next
  case False
  then have a: "0 < \<bar>q\<bar>" by simp
  have t: "tiny \<le> 1" by (simp add: tiny_def)
  have "\<bar>q\<bar> / 2 ^ 53 \<le> \<bar>q\<bar> / 2"
    by (simp add: field_simps)
  with round_magnitude_error [OF a] t have "round_magnitude \<bar>q\<bar> \<le> 3 / 2 * \<bar>q\<bar> + 1"
    by linarith
  also have "\<dots> \<le> 3 / 2 * 2 ^ 1023 + 1"
    using assms by simp
  also have "\<dots> < pow2 1024"
    by (simp add: pow2_def)
  finally have "\<not> pow2 1024 \<le> round_magnitude \<bar>q\<bar>" by simp
  with False show ?thesis by (simp add: double_def pack_def)
qed

subsection \<open>Evaluation and algebra of the operations\<close>

lemmas double_eval =
  double_def pack_def round_magnitude_def quantize_def ilog2_def pow2_def
  round_half_even_def Let_def bitlength_def

lemma times_number_commute: "x * y = y * (x :: number)"
  by (cases x; cases y) (simp_all add: mult.commute)

lemma double_2: "double 2 = Fin 2"
  by (simp add: double_eval)

lemma double_0: "double 0 = Fin 0"
  by (simp add: double_def)

subsection \<open>Auxiliary facts on the calculator\<close>

lemma names_distinct: "distinct (map name PAPER_SIZES)"
  by (simp add: PAPER_SIZES_def)

lemma find_unique:
  "distinct (map f xs) \<Longrightarrow> p \<in> set xs \<Longrightarrow> f p = k \<Longrightarrow> find (\<lambda>q. f q = k) xs = Some p"
  by (induction xs) (auto simp: image_iff)

lemma find_absent: "\<forall>p\<in>set xs. f p \<noteq> k \<Longrightarrow> find (\<lambda>q. f q = k) xs = None"
  by (induction xs) auto

lemma boardSize_FixedBoard_Custom:
  "mode c = FixedBoard \<Longrightarrow> boardPreset c = ''Custom'' \<Longrightarrow>
     boardSize (geometry c) = customBoardSize c"
  by (simp add: geometry_def boardAndAperture_def)

lemma boardSize_FixedBoard_found:
  assumes "mode c = FixedBoard" and "boardPreset c \<noteq> ''Custom''"
    and "find (\<lambda>p. name p = boardPreset c) PAPER_SIZES = Some p"
  shows "boardSize (geometry c) =
     (if orientation c = landscape
      then \<lparr>width = Math_max (width p) (height p), height = Math_min (width p) (height p)\<rparr>
      else \<lparr>width = Math_min (width p) (height p), height = Math_max (width p) (height p)\<rparr>)"
  using assms by (simp add: geometry_def boardAndAperture_def Let_def)

lemma boardSize_FixedBoard_absent:
  assumes "mode c = FixedBoard" and "boardPreset c \<noteq> ''Custom''"
    and "find (\<lambda>p. name p = boardPreset c) PAPER_SIZES = None"
  shows "boardSize (geometry c) =
     (if orientation c = landscape
      then \<lparr>width = Math_max (double 420) (double 594),
             height = Math_min (double 420) (double 594)\<rparr>
      else \<lparr>width = Math_min (double 420) (double 594),
             height = Math_max (double 420) (double 594)\<rparr>)"
  using assms by (simp add: geometry_def boardAndAperture_def Let_def)

lemma aperturePosition_FixedBoard:
  "mode c = FixedBoard \<Longrightarrow>
     aperturePosition (geometry c) =
       \<lparr> x_pos = half (width (boardSize (geometry c)) - width (apertureSize c)),
         y_pos = half (height (boardSize (geometry c)) - height (apertureSize c))
                   - mountOffset c \<rparr>"
  by (simp add: geometry_def boardAndAperture_def Let_def split_beta)

lemma geometry_CustomBorders:
  "mode c = CustomBorders \<Longrightarrow>
     geometry c =
       \<lparr> boardSize =
           \<lparr> width = width (apertureSize c) + left (manualBorders c) + right (manualBorders c),
             height = height (apertureSize c) + top_b (manualBorders c)
                        + bottom (manualBorders c) \<rparr>,
         aperturePosition =
           \<lparr> x_pos = left (manualBorders c), y_pos = top_b (manualBorders c) \<rparr> \<rparr>"
  by (simp add: geometry_def boardAndAperture_def Let_def)

lemma boardSize_mountOffset_update:
  "boardSize (geometry (c\<lparr>mountOffset := k\<rparr>)) = boardSize (geometry c)"
  by (simp add: geometry_def boardAndAperture_def Let_def split_beta apertureSize_def)

lemma apertureSize_mountOffset_update:
  "apertureSize (c\<lparr>mountOffset := k\<rparr>) = apertureSize c"
  by (simp add: apertureSize_def)

lemma apertureSize_default:
  "apertureSize defaultConfig
     = \<lparr>width = double 215.89999999999998, height = double 266.7\<rparr>"
  by (simp add: apertureSize_def defaultConfig_def double_eval)

lemma geometry_default:
  "geometry defaultConfig
     = \<lparr> boardSize = \<lparr>width = double 420, height = double 594\<rparr>,
         aperturePosition = \<lparr>x_pos = double 102.05000000000001, y_pos = double 156.03\<rparr> \<rparr>"
  by (simp add: geometry_def boardAndAperture_def apertureSize_def defaultConfig_def
      PAPER_SIZES_def double_eval)

lemma getProp_truthy_Inr: "truthy v \<Longrightarrow> \<exists>w. getProp v k = Inr w"
  by (cases v) simp_all

lemma getProp_Inr_again: "getProp v k = Inr w \<Longrightarrow> \<exists>u. getProp v k' = Inr u"
  by (cases v) simp_all

lemma getMountAdvice_result_accepts:
  assumes sv: "getProp result ''suggestedValues'' = Inr sv" and t: "truthy sv"
  shows "\<exists>sug rea pb mo tb bb sb.
      getProp sv ''sideBorder'' = Inr sb \<and>
      getMountAdvice_result result =
        Inr \<lparr> suggestion = sug, reasoning = rea,
              suggestedConfig = Some
                \<lparr> sc_photoBorder = pb, sc_mountOffset = mo,
                  sc_manualBorders = \<lparr>top_b = tb, bottom = bb, left = sb, right = sb\<rparr>,
                  sc_mode = CustomBorders \<rparr> \<rparr>"
proof -
  obtain sug where 1: "getProp result ''suggestion'' = Inr sug"
    using getProp_Inr_again [OF sv] by blast
  obtain rea where 2: "getProp result ''reasoning'' = Inr rea"
    using getProp_Inr_again [OF sv] by blast
  obtain pb where 3: "getProp sv ''photoBorder'' = Inr pb"
    using getProp_truthy_Inr [OF t] by blast
  obtain mo where 4: "getProp sv ''mountOffset'' = Inr mo"
    using getProp_truthy_Inr [OF t] by blast
  obtain tb where 5: "getProp sv ''topBorder'' = Inr tb"
    using getProp_truthy_Inr [OF t] by blast
  obtain bb where 6: "getProp sv ''bottomBorder'' = Inr bb"
    using getProp_truthy_Inr [OF t] by blast
  obtain sb where 7: "getProp sv ''sideBorder'' = Inr sb"
    using getProp_truthy_Inr [OF t] by blast
  show ?thesis
    unfolding getMountAdvice_result_def using sv t 1 2 3 4 5 6 7 by simp
qed

lemma getMountAdvice_result_rejects:
  assumes "\<not> (\<exists>sv. getProp result ''suggestedValues'' = Inr sv \<and> truthy sv)"
  shows "\<exists>e. getMountAdvice_result result = Inl e"
proof (cases "getProp result ''suggestedValues''")
  case (Inl e)
  then show ?thesis by (simp add: getMountAdvice_result_def)
next
  case (Inr sv)
  with assms have "\<not> truthy sv" by simp
  with Inr show ?thesis by (simp add: getMountAdvice_result_def)
qed

lemma sample_eval: "getMountAdvice_result (JObject sampleResult) = Inr sampleAdvice"
  by (simp add: getMountAdvice_result_def sampleResult_def sampleValues_def sampleAdvice_def)

subsection \<open>Finite results and their rounding errors\<close>

lemma finite_number_iff: "finite_number x \<longleftrightarrow> (\<exists>a. x = Fin a)"
  by (cases x) simp_all

lemma finite_number_val: "finite_number x \<Longrightarrow> x = Fin (val x)"
  by (cases x) simp_all

lemma tiny_nonneg: "0 \<le> tiny"
  by (simp add: tiny_def)

lemma p53: "(2::real) ^ 53 = 9007199254740992"
  by simp

lemma plus_error:
  assumes "x + y = Fin r"
  obtains a b where "x = Fin a" and "y = Fin b"
    and "\<bar>r - (a + b)\<bar> \<le> \<bar>a + b\<bar> / 2 ^ 53 + tiny"
proof -
  from assms obtain a b where ab: "x = Fin a" "y = Fin b"
    by (cases x; cases y) simp_all
  with assms have "double (a + b) = Fin r" by simp
  then have "\<bar>r - (a + b)\<bar> \<le> \<bar>a + b\<bar> / 2 ^ 53 + tiny"
    by (rule double_Fin_error)
  with ab show thesis by (rule that)
qed

lemma minus_error:
  assumes "x - y = Fin r"
  obtains a b where "x = Fin a" and "y = Fin b"
    and "\<bar>r - (a - b)\<bar> \<le> \<bar>a - b\<bar> / 2 ^ 53 + tiny"
proof -
  from assms obtain a b where ab: "x = Fin a" "y = Fin b"
    by (cases x; cases y) simp_all
  with assms have "double (a - b) = Fin r" by simp
  then have "\<bar>r - (a - b)\<bar> \<le> \<bar>a - b\<bar> / 2 ^ 53 + tiny"
    by (rule double_Fin_error)
  with ab show thesis by (rule that)
qed

lemma half_error:
  assumes "half x = Fin r"
  obtains a where "x = Fin a" and "\<bar>r - a / 2\<bar> \<le> \<bar>a / 2\<bar> / 2 ^ 53 + tiny"
proof -
  from assms obtain a where a: "x = Fin a"
    by (cases x) simp_all
  with assms have "double (a / 2) = Fin r" by simp
  then have "\<bar>r - a / 2\<bar> \<le> \<bar>a / 2\<bar> / 2 ^ 53 + tiny"
    by (rule double_Fin_error)
  with a show thesis by (rule that)
qed

lemma abs4:
  fixes a b c d :: real
  shows "\<bar>a + b + c - d\<bar> \<le> \<bar>a\<bar> + \<bar>b\<bar> + \<bar>c\<bar> + \<bar>d\<bar>"
  by linarith

lemma rounded_bounds:
  fixes r q t M :: real
  assumes "\<bar>r - q\<bar> \<le> \<bar>q\<bar> / 9007199254740992 + t" and "\<bar>q\<bar> \<le> M"
  shows "\<bar>r - q\<bar> \<le> M / 9007199254740992 + t" and "\<bar>r\<bar> \<le> 2 * M + t"
  using assms by linarith+

text \<open>
  The board of CustomBorders mode less the aperture, against the sum of the two
  borders: four roundings apart.
\<close>

lemma grown_board_error:
  assumes d: "(a + l + r) - a = Fin dv" and s: "l + r = Fin sv"
  shows "\<bar>dv - sv\<bar> \<le> (\<bar>val a\<bar> + \<bar>val l\<bar> + \<bar>val r\<bar>) / 2 ^ 49 + 5 * tiny"
proof -
  from d obtain bv av where b: "a + l + r = Fin bv" and a: "a = Fin av"
    and e3: "\<bar>dv - (bv - av)\<bar> \<le> \<bar>bv - av\<bar> / 2 ^ 53 + tiny"
    by (rule minus_error)
  from b obtain s1 rv where s1: "a + l = Fin s1" and r: "r = Fin rv"
    and e2: "\<bar>bv - (s1 + rv)\<bar> \<le> \<bar>s1 + rv\<bar> / 2 ^ 53 + tiny"
    by (rule plus_error)
  from s1 obtain av' lv where "a = Fin av'" and l: "l = Fin lv"
    and "\<bar>s1 - (av' + lv)\<bar> \<le> \<bar>av' + lv\<bar> / 2 ^ 53 + tiny"
    by (rule plus_error)
  with a have e1: "\<bar>s1 - (av + lv)\<bar> \<le> \<bar>av + lv\<bar> / 2 ^ 53 + tiny"
    by simp
  from s l r have "double (lv + rv) = Fin sv"
    by simp
  then have e4: "\<bar>sv - (lv + rv)\<bar> \<le> \<bar>lv + rv\<bar> / 2 ^ 53 + tiny"
    by (rule double_Fin_error)
  define B where "B = \<bar>av\<bar> + \<bar>lv\<bar> + \<bar>rv\<bar>"
  have m1: "\<bar>av + lv\<bar> \<le> B" and m4: "\<bar>lv + rv\<bar> \<le> B"
    and ma: "\<bar>av\<bar> \<le> B" and mr: "\<bar>rv\<bar> \<le> B"
    using B_def by linarith+
  note r1 = rounded_bounds [OF e1 [unfolded p53] m1]
  have m2: "\<bar>s1 + rv\<bar> \<le> 3 * B + tiny"
    using r1(2) mr by linarith
  note r2 = rounded_bounds [OF e2 [unfolded p53] m2]
  have "\<bar>bv\<bar> \<le> 6 * B + 3 * tiny"
    using r2(2) by simp
  then have m3: "\<bar>bv - av\<bar> \<le> 7 * B + 3 * tiny"
    using ma by linarith
  note r3 = rounded_bounds [OF e3 [unfolded p53] m3]
  note r4 = rounded_bounds [OF e4 [unfolded p53] m4]
  define E1 where "E1 = \<bar>s1 - (av + lv)\<bar>"
  define E2 where "E2 = \<bar>bv - (s1 + rv)\<bar>"
  define E3 where "E3 = \<bar>dv - (bv - av)\<bar>"
  define E4 where "E4 = \<bar>sv - (lv + rv)\<bar>"
  have eq: "dv - sv = (dv - (bv - av)) + (bv - (s1 + rv)) + (s1 - (av + lv)) - (sv - (lv + rv))"
    by simp
  have "\<bar>dv - sv\<bar> \<le> E3 + E2 + E1 + E4"
    unfolding E1_def E2_def E3_def E4_def by (subst eq) (rule abs4)
  also have "\<dots> \<le> 12 * B / 9007199254740992 + 5 * tiny"
    using r1(1) r2(1) r3(1) r4(1) tiny_nonneg
    unfolding E1_def [symmetric] E2_def [symmetric] E3_def [symmetric] E4_def [symmetric]
    by (simp add: add_divide_distrib)
  also have "\<dots> \<le> B / 2 ^ 49 + 5 * tiny"
    unfolding B_def by simp
  finally show ?thesis
    by (simp add: B_def a l r)
qed

lemma abs5:
  fixes a b c d e :: real
  shows "\<bar>d + e - a - 2 * b - 2 * c\<bar> \<le> \<bar>a\<bar> + 2 * \<bar>b\<bar> + 2 * \<bar>c\<bar> + \<bar>d\<bar> + \<bar>e\<bar>"
  by linarith

lemma abs_sub_le:
  fixes x y X Y :: real
  shows "\<bar>x\<bar> \<le> X \<Longrightarrow> \<bar>y\<bar> \<le> Y \<Longrightarrow> \<bar>x - y\<bar> \<le> X + Y"
  by linarith

text \<open>
  The bottom margin less the top margin of FixedBoard mode, against twice the mount
  offset: five roundings apart, two of them counted twice.
\<close>

lemma margin_error:
  assumes t: "half (b - a) - k = Fin tv" and bo: "(b - (half (b - a) - k)) - a = Fin bv"
  shows "\<bar>(bv - tv) - 2 * val k\<bar> \<le> (\<bar>val b\<bar> + \<bar>val a\<bar> + \<bar>val k\<bar>) / 2 ^ 48 + 8 * tiny"
proof -
  from t obtain hv kv where h: "half (b - a) = Fin hv" and k: "k = Fin kv"
    and et: "\<bar>tv - (hv - kv)\<bar> \<le> \<bar>hv - kv\<bar> / 2 ^ 53 + tiny"
    by (rule minus_error)
  from h obtain mv where m: "b - a = Fin mv"
    and eh: "\<bar>hv - mv / 2\<bar> \<le> \<bar>mv / 2\<bar> / 2 ^ 53 + tiny"
    by (rule half_error)
  from m obtain wv av where b: "b = Fin wv" and a: "a = Fin av"
    and em: "\<bar>mv - (wv - av)\<bar> \<le> \<bar>wv - av\<bar> / 2 ^ 53 + tiny"
    by (rule minus_error)
  from bo t have "(b - Fin tv) - a = Fin bv"
    by simp
  then obtain sv av' where s: "b - Fin tv = Fin sv" and "a = Fin av'"
    and "\<bar>bv - (sv - av')\<bar> \<le> \<bar>sv - av'\<bar> / 2 ^ 53 + tiny"
    by (rule minus_error)
  with a have eb: "\<bar>bv - (sv - av)\<bar> \<le> \<bar>sv - av\<bar> / 2 ^ 53 + tiny"
    by simp
  from s b have "double (wv - tv) = Fin sv"
    by simp
  then have es: "\<bar>sv - (wv - tv)\<bar> \<le> \<bar>wv - tv\<bar> / 2 ^ 53 + tiny"
    by (rule double_Fin_error)
  define B where "B = \<bar>wv\<bar> + \<bar>av\<bar> + \<bar>kv\<bar>"
  have mw: "\<bar>wv\<bar> \<le> B" and ma: "\<bar>av\<bar> \<le> B" and mk: "\<bar>kv\<bar> \<le> B"
    and m1: "\<bar>wv - av\<bar> \<le> B"
    using B_def by linarith+
  note t0 = tiny_nonneg
  note r1 = rounded_bounds [OF em [unfolded p53] m1]
  have m2: "\<bar>mv / 2\<bar> \<le> B + tiny"
    using r1(2) t0 by simp
  note r2 = rounded_bounds [OF eh [unfolded p53] m2]
  have "\<bar>hv\<bar> \<le> 2 * B + 3 * tiny"
    using r2(2) by simp
  then have m3: "\<bar>hv - kv\<bar> \<le> 3 * B + 3 * tiny"
    using mk by linarith
  note r3 = rounded_bounds [OF et [unfolded p53] m3]
  have "\<bar>tv\<bar> \<le> 6 * B + 7 * tiny"
    using r3(2) by simp
  then have m4: "\<bar>wv - tv\<bar> \<le> 7 * B + 7 * tiny"
    using mw by linarith
  note r4 = rounded_bounds [OF es [unfolded p53] m4]
  have "\<bar>sv\<bar> \<le> 14 * B + 15 * tiny"
    using r4(2) by simp
  then have m5: "\<bar>sv - av\<bar> \<le> 15 * B + 15 * tiny"
    using ma by linarith
  note r5 = rounded_bounds [OF eb [unfolded p53] m5]
  define Em where "Em = \<bar>mv - (wv - av)\<bar>"
  define Eh where "Eh = \<bar>hv - mv / 2\<bar>"
  define Et where "Et = \<bar>tv - (hv - kv)\<bar>"
  define Es where "Es = \<bar>sv - (wv - tv)\<bar>"
  define Eb where "Eb = \<bar>bv - (sv - av)\<bar>"
  have eq: "(bv - tv) - 2 * kv
      = (sv - (wv - tv)) + (bv - (sv - av)) - (mv - (wv - av))
          - 2 * (hv - mv / 2) - 2 * (tv - (hv - kv))"
    by simp
  have "\<bar>(bv - tv) - 2 * kv\<bar> \<le> Em + 2 * Eh + 2 * Et + Es + Eb"
    unfolding Em_def Eh_def Et_def Es_def Eb_def by (subst eq) (rule abs5)
  also have "\<dots> \<le> 32 * B / 9007199254740992 + 8 * tiny"
    using r1(1) r2(1) r3(1) r4(1) r5(1) t0 mw
    unfolding Em_def [symmetric] Eh_def [symmetric] Et_def [symmetric] Es_def [symmetric]
      Eb_def [symmetric]
    by (simp add: add_divide_distrib)
  also have "\<dots> = B / 2 ^ 48 + 8 * tiny"
    by simp
  finally show ?thesis
    by (simp add: B_def a b k)
qed

text \<open>
  The right margin \<open>b - x - a\<close> against the left margin \<open>x = half (b - a)\<close>: four
  roundings apart.
\<close>

lemma centre_error:
  assumes x: "half (b - a) = Fin xv" and r: "(b - half (b - a)) - a = Fin rv"
  shows "\<bar>xv - rv\<bar> \<le> (\<bar>val b\<bar> + \<bar>val a\<bar>) / 2 ^ 49 + 6 * tiny"
proof -
  from x obtain mv where m: "b - a = Fin mv"
    and eh: "\<bar>xv - mv / 2\<bar> \<le> \<bar>mv / 2\<bar> / 2 ^ 53 + tiny"
    by (rule half_error)
  from m obtain wv av where b: "b = Fin wv" and a: "a = Fin av"
    and em: "\<bar>mv - (wv - av)\<bar> \<le> \<bar>wv - av\<bar> / 2 ^ 53 + tiny"
    by (rule minus_error)
  from r x have "(b - Fin xv) - a = Fin rv"
    by simp
  then obtain sv av' where s: "b - Fin xv = Fin sv" and "a = Fin av'"
    and "\<bar>rv - (sv - av')\<bar> \<le> \<bar>sv - av'\<bar> / 2 ^ 53 + tiny"
    by (rule minus_error)
  with a have er: "\<bar>rv - (sv - av)\<bar> \<le> \<bar>sv - av\<bar> / 2 ^ 53 + tiny"
    by simp
  from s b have "double (wv - xv) = Fin sv"
    by simp
  then have es: "\<bar>sv - (wv - xv)\<bar> \<le> \<bar>wv - xv\<bar> / 2 ^ 53 + tiny"
    by (rule double_Fin_error)
  define B where "B = \<bar>wv\<bar> + \<bar>av\<bar>"
  have mw: "\<bar>wv\<bar> \<le> B" and ma: "\<bar>av\<bar> \<le> B" and m1: "\<bar>wv - av\<bar> \<le> B"
    using B_def by linarith+
  note t0 = tiny_nonneg
  note r1 = rounded_bounds [OF em [unfolded p53] m1]
  have m2: "\<bar>mv / 2\<bar> \<le> B + tiny"
    using r1(2) t0 by simp
  note r2 = rounded_bounds [OF eh [unfolded p53] m2]
  have "\<bar>xv\<bar> \<le> 2 * B + 3 * tiny"
    using r2(2) by simp
  then have m4: "\<bar>wv - xv\<bar> \<le> 3 * B + 3 * tiny"
    using mw by linarith
  note r4 = rounded_bounds [OF es [unfolded p53] m4]
  have "\<bar>sv\<bar> \<le> 6 * B + 7 * tiny"
    using r4(2) by simp
  then have m5: "\<bar>sv - av\<bar> \<le> 7 * B + 7 * tiny"
    using ma by linarith
  note r5 = rounded_bounds [OF er [unfolded p53] m5]
  define Em where "Em = \<bar>mv - (wv - av)\<bar>"
  define Eh where "Eh = \<bar>xv - mv / 2\<bar>"
  define Es where "Es = \<bar>sv - (wv - xv)\<bar>"
  define Er where "Er = \<bar>rv - (sv - av)\<bar>"
  have eq: "rv - xv
      = (sv - (wv - xv)) + (rv - (sv - av)) - (mv - (wv - av))
          - 2 * (xv - mv / 2) - 2 * 0"
    by simp
  have "\<bar>rv - xv\<bar> \<le> Em + 2 * Eh + 2 * \<bar>0\<bar> + Es + Er"
    unfolding Em_def Eh_def Es_def Er_def by (subst eq) (rule abs5)
  also have "\<dots> \<le> 16 * B / 9007199254740992 + 6 * tiny"
    using r1(1) r2(1) r4(1) r5(1) t0 mw
    unfolding Em_def [symmetric] Eh_def [symmetric] Es_def [symmetric] Er_def [symmetric]
    by (simp add: add_divide_distrib)
  also have "\<dots> = B / 2 ^ 49 + 6 * tiny"
    by simp
  finally have "\<bar>rv - xv\<bar> \<le> B / 2 ^ 49 + 6 * tiny" .
  then show ?thesis
    by (simp add: B_def a b abs_minus_commute)
qed

subsection \<open>Results that are not NaN, and results that are finite\<close>

lemma finite_plus_not_NaN:
  "finite_number x \<Longrightarrow> y \<noteq> NaN \<Longrightarrow> x + y \<noteq> NaN \<and> y + x \<noteq> NaN"
  by (cases x; cases y) (simp_all add: double_not_NaN)

lemma finite_minus_not_NaN:
  "finite_number x \<Longrightarrow> y \<noteq> NaN \<Longrightarrow> x - y \<noteq> NaN \<and> y - x \<noteq> NaN"
  by (cases x; cases y) (simp_all add: double_not_NaN)

lemma finite_times_not_NaN:
  "finite_number x \<Longrightarrow> finite_number y \<Longrightarrow> x * y \<noteq> NaN"
  by (cases x; cases y) (simp_all add: double_not_NaN)

lemma half_not_NaN: "x \<noteq> NaN \<Longrightarrow> half x \<noteq> NaN"
  by (cases x) (simp_all add: double_not_NaN)

lemma finite_not_NaN: "finite_number x \<Longrightarrow> x \<noteq> NaN"
  by (cases x) simp_all

lemma Math_finite:
  "finite_number x \<Longrightarrow> finite_number y \<Longrightarrow>
     finite_number (Math_max x y) \<and> finite_number (Math_min x y)"
  by (cases x; cases y) simp_all

lemma bounded_by_finite: "bounded_by n x \<Longrightarrow> finite_number x"
  by (cases x) simp_all

lemma bounded_by_mono: "bounded_by n x \<Longrightarrow> n \<le> m \<Longrightarrow> bounded_by m x"
proof (cases x)
  case (Fin a)
  assume "bounded_by n x" and nm: "n \<le> m"
  then have "\<bar>a\<bar> \<le> 2 ^ n"
    using Fin by simp
  also have "(2::real) ^ n \<le> 2 ^ m"
    using nm by (intro power_increasing) simp_all
  finally show ?thesis
    using Fin by simp
qed simp_all

lemma Math_bounded:
  "bounded_by n x \<Longrightarrow> bounded_by n y \<Longrightarrow>
     bounded_by n (Math_max x y) \<and> bounded_by n (Math_min x y)"
  by (cases x; cases y) (auto simp: max_def min_def)

lemma double_bounded:
  assumes "\<bar>q\<bar> \<le> 2 ^ n" and "n \<le> 1022"
  shows "bounded_by (Suc n) (double q)"
proof -
  have "(2::real) ^ n \<le> 2 ^ 1023"
    using assms(2) by (intro power_increasing) simp_all
  with assms(1) have "\<bar>q\<bar> \<le> 2 ^ 1023"
    by linarith
  then obtain r where r: "double q = Fin r"
    using double_finite by blast
  have e: "\<bar>r - q\<bar> \<le> \<bar>q\<bar> / 9007199254740992 + tiny"
    using double_Fin_error [OF r] by (simp only: p53)
  have one: "(1::real) \<le> 2 ^ n"
    by simp
  have "tiny \<le> 1 / 2"
    by (simp add: tiny_def)
  with e assms(1) one have "\<bar>r\<bar> \<le> 2 * 2 ^ n"
    by linarith
  then show ?thesis
    by (simp add: r)
qed

lemma bounded_plus:
  assumes "bounded_by n x" and "bounded_by n y" and "n < 1022"
  shows "bounded_by (n + 2) (x + y)"
proof -
  from assms obtain a b where x: "x = Fin a" "\<bar>a\<bar> \<le> 2 ^ n" and y: "y = Fin b" "\<bar>b\<bar> \<le> 2 ^ n"
    by (cases x; cases y) simp_all
  have "\<bar>a + b\<bar> \<le> 2 ^ Suc n"
    using x(2) y(2) by simp
  then have "bounded_by (Suc (Suc n)) (double (a + b))"
    using assms(3) by (intro double_bounded) simp_all
  then show ?thesis
    by (simp add: x y)
qed

lemma bounded_minus:
  assumes "bounded_by n x" and "bounded_by n y" and "n < 1022"
  shows "bounded_by (n + 2) (x - y)"
proof -
  from assms obtain a b where x: "x = Fin a" "\<bar>a\<bar> \<le> 2 ^ n" and y: "y = Fin b" "\<bar>b\<bar> \<le> 2 ^ n"
    by (cases x; cases y) simp_all
  have "\<bar>a - b\<bar> \<le> 2 ^ Suc n"
    using x(2) y(2) by simp
  then have "bounded_by (Suc (Suc n)) (double (a - b))"
    using assms(3) by (intro double_bounded) simp_all
  then show ?thesis
    by (simp add: x y)
qed

lemma bounded_twice:
  assumes "bounded_by n x" and "n < 1022"
  shows "bounded_by (n + 2) (x * double 2)"
proof -
  from assms obtain a where x: "x = Fin a" "\<bar>a\<bar> \<le> 2 ^ n"
    by (cases x) simp_all
  have "\<bar>a * 2\<bar> \<le> 2 ^ Suc n"
    using x(2) by simp
  then have "bounded_by (Suc (Suc n)) (double (a * 2))"
    using assms(2) by (intro double_bounded) simp_all
  then show ?thesis
    by (simp add: x double_2)
qed

lemma bounded_half:
  assumes "bounded_by n x" and "n \<le> 1022"
  shows "bounded_by (n + 1) (half x)"
proof -
  from assms obtain a where x: "x = Fin a" "\<bar>a\<bar> \<le> 2 ^ n"
    by (cases x) simp_all
  have "\<bar>a / 2\<bar> \<le> 2 ^ n"
    using x(2) by simp
  then have "bounded_by (Suc n) (double (a / 2))"
    using assms(2) by (rule double_bounded)
  then show ?thesis
    by (simp add: x)
qed

lemma find_in_set: "find P xs = Some p \<Longrightarrow> p \<in> set xs"
  by (induction xs) (auto split: if_splits)

lemma PAPER_SIZES_bounded:
  "p \<in> set PAPER_SIZES \<Longrightarrow> bounded_by 1000 (width p) \<and> bounded_by 1000 (height p)"
  by (auto simp: PAPER_SIZES_def double_eval)

lemma fallback_bounded: "bounded_by 1000 (double 420) \<and> bounded_by 1000 (double 594)"
  by (simp add: double_eval)

subsection \<open>C1: the board of FixedBoard mode\<close>

text \<open>
  Claim C1. In FixedBoard mode, a \<open>boardPreset\<close> equal to \<^verbatim>\<open>"Custom"\<close> gives
  \<open>customBoardSize\<close> as it is. Any other preset is looked up in the paper-size table
  by its exact name; the dimensions \<open>(w, h)\<close> are those of the matching entry, or
  \<open>(420, 594)\<close> when no entry has that name. The board is then
  \<open>(Math_max w h, Math_min w h)\<close> in landscape and \<open>(Math_min w h, Math_max w h)\<close> in
  portrait, so that equal dimensions stay as they are. In particular \<^verbatim>\<open>"A4"\<close> in
  portrait is 210 by 297.
\<close>

theorem fixedBoard_boardSize:
  assumes "mode c = FixedBoard"
  shows
    "(boardPreset c = ''Custom'' \<longrightarrow> boardSize (geometry c) = customBoardSize c) \<and>
     (boardPreset c \<noteq> ''Custom'' \<and>
        (p \<in> set PAPER_SIZES \<and> name p = boardPreset c \<and> w = width p \<and> h = height p \<or>
         (\<forall>q \<in> set PAPER_SIZES. name q \<noteq> boardPreset c) \<and>
           w = double 420 \<and> h = double 594) \<longrightarrow>
        boardSize (geometry c) =
          (if orientation c = landscape
           then \<lparr>width = Math_max w h, height = Math_min w h\<rparr>
           else \<lparr>width = Math_min w h, height = Math_max w h\<rparr>)) \<and>
     (boardPreset c = ''A4'' \<and> orientation c = portrait \<longrightarrow>
        boardSize (geometry c) = \<lparr>width = double 210, height = double 297\<rparr>)"
proof (intro conjI impI)
  assume "boardPreset c = ''Custom''"
  with assms show "boardSize (geometry c) = customBoardSize c"
    by (rule boardSize_FixedBoard_Custom)
next
  assume a: "boardPreset c \<noteq> ''Custom'' \<and>
        (p \<in> set PAPER_SIZES \<and> name p = boardPreset c \<and> w = width p \<and> h = height p \<or>
         (\<forall>q \<in> set PAPER_SIZES. name q \<noteq> boardPreset c) \<and>
           w = double 420 \<and> h = double 594)"
  then have nc: "boardPreset c \<noteq> ''Custom''" by simp
  from a consider
      (found) "p \<in> set PAPER_SIZES" "name p = boardPreset c" "w = width p" "h = height p"
    | (absent) "\<forall>q \<in> set PAPER_SIZES. name q \<noteq> boardPreset c"
        "w = double 420" "h = double 594"
    by blast
  then show "boardSize (geometry c) =
          (if orientation c = landscape
           then \<lparr>width = Math_max w h, height = Math_min w h\<rparr>
           else \<lparr>width = Math_min w h, height = Math_max w h\<rparr>)"
  proof cases
    case found
    have "find (\<lambda>q. name q = boardPreset c) PAPER_SIZES = Some p"
      using names_distinct found(1,2) by (rule find_unique)
    with assms nc show ?thesis
      unfolding found(3,4) by (rule boardSize_FixedBoard_found)
  next
    case absent
    have "find (\<lambda>q. name q = boardPreset c) PAPER_SIZES = None"
      using absent(1) by (rule find_absent)
    with assms nc show ?thesis
      unfolding absent(2,3) by (rule boardSize_FixedBoard_absent)
  qed
next
  assume a4: "boardPreset c = ''A4'' \<and> orientation c = portrait"
  have "find (\<lambda>q. name q = boardPreset c) PAPER_SIZES
          = Some \<lparr>width = double 210, height = double 297, name = ''A4''\<rparr>"
    using a4 by (simp add: PAPER_SIZES_def)
  with assms a4 have "boardSize (geometry c) =
      \<lparr>width = Math_min (double 210) (double 297),
        height = Math_max (double 210) (double 297)\<rparr>"
    by (simp add: boardSize_FixedBoard_found)
  then show "boardSize (geometry c) = \<lparr>width = double 210, height = double 297\<rparr>"
    by (simp add: double_eval)
qed

theorem fixedBoard_boardSize_witness:
  "boardSize (geometry (defaultConfig\<lparr>boardPreset := ''Custom'',
       customBoardSize := \<lparr>width = double 300, height = double 200\<rparr>\<rparr>))
     = \<lparr>width = double 300, height = double 200\<rparr> \<and>
   boardSize (geometry (defaultConfig\<lparr>boardPreset := ''A3'', orientation := landscape\<rparr>))
     = \<lparr>width = double 420, height = double 297\<rparr> \<and>
   boardSize (geometry (defaultConfig\<lparr>boardPreset := ''Letter''\<rparr>))
     = \<lparr>width = double 215.9, height = double 279.4\<rparr> \<and>
   boardSize (geometry (defaultConfig\<lparr>boardPreset := ''B5''\<rparr>))
     = \<lparr>width = double 420, height = double 594\<rparr> \<and>
   boardSize (geometry (defaultConfig\<lparr>boardPreset := ''B5'', orientation := landscape\<rparr>))
     = \<lparr>width = double 594, height = double 420\<rparr> \<and>
   boardSize (geometry (defaultConfig\<lparr>boardPreset := ''A4''\<rparr>))
     = \<lparr>width = double 210, height = double 297\<rparr>"
proof -
  have 1: "boardSize (geometry (defaultConfig\<lparr>boardPreset := ''Custom'',
       customBoardSize := \<lparr>width = double 300, height = double 200\<rparr>\<rparr>))
     = \<lparr>width = double 300, height = double 200\<rparr>"
    using fixedBoard_boardSize [of "defaultConfig\<lparr>boardPreset := ''Custom'',
       customBoardSize := \<lparr>width = double 300, height = double 200\<rparr>\<rparr>"]
    by (simp add: defaultConfig_def)
  have "boardSize (geometry (defaultConfig\<lparr>boardPreset := ''A3'', orientation := landscape\<rparr>))
     = \<lparr>width = Math_max (double 297) (double 420),
         height = Math_min (double 297) (double 420)\<rparr>"
    using fixedBoard_boardSize [of "defaultConfig\<lparr>boardPreset := ''A3'', orientation := landscape\<rparr>"
       "\<lparr>width = double 297, height = double 420, name = ''A3''\<rparr>"
       "double 297" "double 420"]
    by (simp add: defaultConfig_def PAPER_SIZES_def)
  then have 2: "boardSize (geometry (defaultConfig\<lparr>boardPreset := ''A3'', orientation := landscape\<rparr>))
     = \<lparr>width = double 420, height = double 297\<rparr>"
    by (simp add: double_eval)
  have "boardSize (geometry (defaultConfig\<lparr>boardPreset := ''Letter''\<rparr>))
     = \<lparr>width = Math_min (double 215.9) (double 279.4),
         height = Math_max (double 215.9) (double 279.4)\<rparr>"
    using fixedBoard_boardSize [of "defaultConfig\<lparr>boardPreset := ''Letter''\<rparr>"
       "\<lparr>width = double 215.9, height = double 279.4, name = ''Letter''\<rparr>"
       "double 215.9" "double 279.4"]
    by (simp add: defaultConfig_def PAPER_SIZES_def)
  then have 3: "boardSize (geometry (defaultConfig\<lparr>boardPreset := ''Letter''\<rparr>))
     = \<lparr>width = double 215.9, height = double 279.4\<rparr>"
    by (simp add: double_eval)
  have "boardSize (geometry (defaultConfig\<lparr>boardPreset := ''B5''\<rparr>))
     = \<lparr>width = Math_min (double 420) (double 594),
         height = Math_max (double 420) (double 594)\<rparr>"
    using fixedBoard_boardSize [of "defaultConfig\<lparr>boardPreset := ''B5''\<rparr>"
       "\<lparr>width = double 420, height = double 594, name = ''A2''\<rparr>"
       "double 420" "double 594"]
    by (simp add: defaultConfig_def PAPER_SIZES_def)
  then have 4: "boardSize (geometry (defaultConfig\<lparr>boardPreset := ''B5''\<rparr>))
     = \<lparr>width = double 420, height = double 594\<rparr>"
    by (simp add: double_eval)
  have "boardSize (geometry (defaultConfig\<lparr>boardPreset := ''B5'', orientation := landscape\<rparr>))
     = \<lparr>width = Math_max (double 420) (double 594),
         height = Math_min (double 420) (double 594)\<rparr>"
    using fixedBoard_boardSize [of "defaultConfig\<lparr>boardPreset := ''B5'', orientation := landscape\<rparr>"
       "\<lparr>width = double 420, height = double 594, name = ''A2''\<rparr>"
       "double 420" "double 594"]
    by (simp add: defaultConfig_def PAPER_SIZES_def)
  then have 5: "boardSize (geometry (defaultConfig\<lparr>boardPreset := ''B5'', orientation := landscape\<rparr>))
     = \<lparr>width = double 594, height = double 420\<rparr>"
    by (simp add: double_eval)
  have 6: "boardSize (geometry (defaultConfig\<lparr>boardPreset := ''A4''\<rparr>))
     = \<lparr>width = double 210, height = double 297\<rparr>"
    using fixedBoard_boardSize [of "defaultConfig\<lparr>boardPreset := ''A4''\<rparr>"]
    by (simp add: defaultConfig_def)
  from 1 2 3 4 5 6 show ?thesis by blast
qed

subsection \<open>C2: the aperture of FixedBoard mode\<close>

text \<open>
  Claim C2, as amended. In FixedBoard mode the aperture is at
  \<open>aX = (boardWidth - apertureWidth) / 2\<close> and
  \<open>aY = (boardHeight - apertureHeight) / 2 - mountOffset\<close>, each operation rounded as
  the code computes it. The aperture is centred up to rounding. Horizontally,
  whenever \<open>aX\<close> and \<open>boardWidth - aX - apertureWidth\<close> are finite they differ by at
  most \<open>2 ^ - 49\<close> times the sum of the magnitudes of the board and aperture widths,
  plus \<open>6 * tiny\<close>. Vertically, with \<open>mountOffset = 0\<close>, whenever \<open>aY\<close> and
  \<open>boardHeight - aY - apertureHeight\<close> are finite they differ by at most \<open>2 ^ - 48\<close>
  times the sum of the magnitudes of the two heights, plus \<open>8 * tiny\<close>.
\<close>

theorem fixedBoard_aperture_centered:
  assumes "mode c = FixedBoard"
  shows
    "x_pos (aperturePosition (geometry c))
       = half (width (boardSize (geometry c)) - width (apertureSize c)) \<and>
     y_pos (aperturePosition (geometry c))
       = half (height (boardSize (geometry c)) - height (apertureSize c)) - mountOffset c \<and>
     (finite_number (x_pos (aperturePosition (geometry c))) \<and>
      finite_number (width (boardSize (geometry c)) - x_pos (aperturePosition (geometry c))
          - width (apertureSize c)) \<longrightarrow>
        \<bar>val (x_pos (aperturePosition (geometry c)))
            - val (width (boardSize (geometry c)) - x_pos (aperturePosition (geometry c))
                - width (apertureSize c))\<bar>
          \<le> (\<bar>val (width (boardSize (geometry c)))\<bar> + \<bar>val (width (apertureSize c))\<bar>)
                / 2 ^ 49 + 6 * tiny) \<and>
     (mountOffset c = Fin 0 \<and>
      finite_number (y_pos (aperturePosition (geometry c))) \<and>
      finite_number (height (boardSize (geometry c)) - y_pos (aperturePosition (geometry c))
          - height (apertureSize c)) \<longrightarrow>
        \<bar>val (y_pos (aperturePosition (geometry c)))
            - val (height (boardSize (geometry c)) - y_pos (aperturePosition (geometry c))
                - height (apertureSize c))\<bar>
          \<le> (\<bar>val (height (boardSize (geometry c)))\<bar> + \<bar>val (height (apertureSize c))\<bar>)
                / 2 ^ 48 + 8 * tiny)"
proof -
  note p = aperturePosition_FixedBoard [OF assms]
  have horizontal: "\<bar>val (half (b - a)) - val (b - half (b - a) - a)\<bar>
      \<le> (\<bar>val b\<bar> + \<bar>val a\<bar>) / 2 ^ 49 + 6 * tiny"
    if "finite_number (half (b - a)) \<and> finite_number (b - half (b - a) - a)" for a b
  proof -
    from that obtain xv rv where "half (b - a) = Fin xv" "(b - half (b - a)) - a = Fin rv"
      by (auto simp: finite_number_iff)
    with centre_error [of b a xv rv] show ?thesis by simp
  qed
  have vertical: "\<bar>val (half (b - a) - Fin 0) - val (b - (half (b - a) - Fin 0) - a)\<bar>
      \<le> (\<bar>val b\<bar> + \<bar>val a\<bar>) / 2 ^ 48 + 8 * tiny"
    if "finite_number (half (b - a) - Fin 0) \<and> finite_number (b - (half (b - a) - Fin 0) - a)"
    for a b
  proof -
    from that obtain tv bv where
      "half (b - a) - Fin 0 = Fin tv" "(b - (half (b - a) - Fin 0)) - a = Fin bv"
      by (auto simp: finite_number_iff)
    with margin_error [of b a "Fin 0" tv bv] show ?thesis
      by (simp add: abs_minus_commute)
  qed
  show ?thesis
    unfolding p using horizontal vertical by auto
qed

theorem fixedBoard_centring_counterexample:
  "mode centredExample = FixedBoard \<and>
   mountOffset centredExample = Fin 0 \<and>
   y_pos (aperturePosition (geometry centredExample)) = double 163.65 \<and>
   height (boardSize (geometry centredExample)) - y_pos (aperturePosition (geometry centredExample))
       - height (apertureSize centredExample) = double 163.65000000000003 \<and>
   y_pos (aperturePosition (geometry centredExample))
     \<noteq> height (boardSize (geometry centredExample))
         - y_pos (aperturePosition (geometry centredExample))
         - height (apertureSize centredExample)"
  by (simp add: centredExample_def defaultConfig_def geometry_def boardAndAperture_def
      apertureSize_def PAPER_SIZES_def double_eval)

theorem fixedBoard_aperture_centered_witness:
  "x_pos (aperturePosition (geometry centredExample)) = double 102.05000000000001 \<and>
   y_pos (aperturePosition (geometry centredExample)) = double 163.65 \<and>
   \<bar>val (x_pos (aperturePosition (geometry centredExample)))
      - val (width (boardSize (geometry centredExample))
          - x_pos (aperturePosition (geometry centredExample))
          - width (apertureSize centredExample))\<bar>
     \<le> (\<bar>val (width (boardSize (geometry centredExample)))\<bar>
          + \<bar>val (width (apertureSize centredExample))\<bar>) / 2 ^ 49 + 6 * tiny \<and>
   \<bar>val (y_pos (aperturePosition (geometry centredExample)))
      - val (height (boardSize (geometry centredExample))
          - y_pos (aperturePosition (geometry centredExample))
          - height (apertureSize centredExample))\<bar>
     \<le> (\<bar>val (height (boardSize (geometry centredExample)))\<bar>
          + \<bar>val (height (apertureSize centredExample))\<bar>) / 2 ^ 48 + 8 * tiny"
proof -
  have m: "mode centredExample = FixedBoard"
    by (simp add: centredExample_def defaultConfig_def)
  have k: "mountOffset centredExample = Fin 0"
    by (simp add: centredExample_def double_0)
  have a: "apertureSize centredExample
      = \<lparr>width = double 215.89999999999998, height = double 266.7\<rparr>"
    by (simp add: centredExample_def defaultConfig_def apertureSize_def double_eval)
  have g: "geometry centredExample
      = \<lparr> boardSize = \<lparr>width = double 420, height = double 594\<rparr>,
          aperturePosition = \<lparr>x_pos = double 102.05000000000001, y_pos = double 163.65\<rparr> \<rparr>"
    by (simp add: centredExample_def defaultConfig_def geometry_def boardAndAperture_def
        apertureSize_def PAPER_SIZES_def double_eval)
  have f: "finite_number (x_pos (aperturePosition (geometry centredExample)))"
    "finite_number (width (boardSize (geometry centredExample))
        - x_pos (aperturePosition (geometry centredExample))
        - width (apertureSize centredExample))"
    "finite_number (y_pos (aperturePosition (geometry centredExample)))"
    "finite_number (height (boardSize (geometry centredExample))
        - y_pos (aperturePosition (geometry centredExample))
        - height (apertureSize centredExample))"
    unfolding g a by (simp_all add: double_eval)
  have x: "x_pos (aperturePosition (geometry centredExample)) = double 102.05000000000001"
    and y: "y_pos (aperturePosition (geometry centredExample)) = double 163.65"
    by (simp_all add: g)
  from fixedBoard_aperture_centered [OF m] k f x y show ?thesis
    by blast
qed

subsection \<open>C3: the aperture size\<close>

text \<open>
  Claim C3. For every configuration, whatever the signs of its numbers, the aperture
  is \<open>photoWidth + 2 * photoBorder\<close> wide and \<open>photoHeight + 2 * photoBorder\<close> high,
  and it does not depend on the mode. There is no hypothesis on \<open>photoBorder\<close>: a
  negative border goes through the same formula.
\<close>

theorem apertureSize_formula:
  "width (apertureSize c) = photoWidth c + double 2 * photoBorder c \<and>
   height (apertureSize c) = photoHeight c + double 2 * photoBorder c \<and>
   apertureSize (c\<lparr>mode := m\<rparr>) = apertureSize c"
  by (simp add: apertureSize_def times_number_commute [of "double 2"])

subsection \<open>C4: CustomBorders mode\<close>

text \<open>
  Claim C4, as amended. In CustomBorders mode the board is the aperture plus the
  manual borders, \<open>boardWidth = apertureWidth + left + right\<close> and
  \<open>boardHeight = apertureHeight + top + bottom\<close>, each sum rounded as the code computes
  it, and the aperture is at \<open>aX = left\<close>, \<open>aY = top\<close>. The difference
  \<open>boardWidth - apertureWidth\<close> agrees with \<open>left + right\<close>, and
  \<open>boardHeight - apertureHeight\<close> with \<open>top + bottom\<close>, up to rounding: whenever both
  are finite they differ by at most \<open>2 ^ - 49\<close> times the sum of the magnitudes of the
  aperture and the two borders, plus \<open>5 * tiny\<close>. An aperture of 215.9 by 266.7 with
  borders top 50, bottom 60, left 45, right 45 gives a board of 305.9 by 376.7 and
  the aperture at (45, 50).
\<close>

theorem customBorders_geometry:
  assumes "mode c = CustomBorders"
  shows
    "width (boardSize (geometry c))
       = width (apertureSize c) + left (manualBorders c) + right (manualBorders c) \<and>
     height (boardSize (geometry c))
       = height (apertureSize c) + top_b (manualBorders c) + bottom (manualBorders c) \<and>
     x_pos (aperturePosition (geometry c)) = left (manualBorders c) \<and>
     y_pos (aperturePosition (geometry c)) = top_b (manualBorders c) \<and>
     (finite_number (width (boardSize (geometry c)) - width (apertureSize c)) \<and>
      finite_number (left (manualBorders c) + right (manualBorders c)) \<longrightarrow>
        \<bar>val (width (boardSize (geometry c)) - width (apertureSize c))
            - val (left (manualBorders c) + right (manualBorders c))\<bar>
          \<le> (\<bar>val (width (apertureSize c))\<bar> + \<bar>val (left (manualBorders c))\<bar>
                + \<bar>val (right (manualBorders c))\<bar>) / 2 ^ 49 + 5 * tiny) \<and>
     (finite_number (height (boardSize (geometry c)) - height (apertureSize c)) \<and>
      finite_number (top_b (manualBorders c) + bottom (manualBorders c)) \<longrightarrow>
        \<bar>val (height (boardSize (geometry c)) - height (apertureSize c))
            - val (top_b (manualBorders c) + bottom (manualBorders c))\<bar>
          \<le> (\<bar>val (height (apertureSize c))\<bar> + \<bar>val (top_b (manualBorders c))\<bar>
                + \<bar>val (bottom (manualBorders c))\<bar>) / 2 ^ 49 + 5 * tiny) \<and>
     (apertureSize c = \<lparr>width = double 215.9, height = double 266.7\<rparr> \<and>
      manualBorders c
        = \<lparr>top_b = double 50, bottom = double 60, left = double 45, right = double 45\<rparr> \<longrightarrow>
        geometry c = \<lparr> boardSize = \<lparr>width = double 305.9, height = double 376.7\<rparr>,
                       aperturePosition = \<lparr>x_pos = double 45, y_pos = double 50\<rparr> \<rparr>)"
proof -
  note g = geometry_CustomBorders [OF assms]
  have tol: "\<bar>val ((a + l + r) - a) - val (l + r)\<bar>
      \<le> (\<bar>val a\<bar> + \<bar>val l\<bar> + \<bar>val r\<bar>) / 2 ^ 49 + 5 * tiny"
    if "finite_number ((a + l + r) - a) \<and> finite_number (l + r)" for a l r
  proof -
    from that obtain dv sv where "(a + l + r) - a = Fin dv" "l + r = Fin sv"
      by (auto simp: finite_number_iff)
    with grown_board_error [of a l r dv sv] show ?thesis by simp
  qed
  have ex: "double 215.9 + double 45 + double 45 = double 305.9"
    "double 266.7 + double 50 + double 60 = double 376.7"
    by (simp_all add: double_eval)
  show ?thesis
    unfolding g using tol ex by simp
qed

theorem customBorders_difference_counterexample:
  "mode customBordersExample = CustomBorders \<and>
   apertureSize customBordersExample = \<lparr>width = double 215.9, height = double 266.7\<rparr> \<and>
   boardSize (geometry customBordersExample)
     = \<lparr>width = double 305.9, height = double 376.7\<rparr> \<and>
   width (boardSize (geometry customBordersExample)) - width (apertureSize customBordersExample)
     = double 89.99999999999997 \<and>
   left (manualBorders customBordersExample) + right (manualBorders customBordersExample)
     = double 90 \<and>
   width (boardSize (geometry customBordersExample)) - width (apertureSize customBordersExample)
     \<noteq> left (manualBorders customBordersExample) + right (manualBorders customBordersExample)"
  by (simp add: customBordersExample_def defaultConfig_def geometry_def boardAndAperture_def
      apertureSize_def double_eval)

theorem customBorders_geometry_witness:
  "geometry customBordersExample
     = \<lparr> boardSize = \<lparr>width = double 305.9, height = double 376.7\<rparr>,
         aperturePosition = \<lparr>x_pos = double 45, y_pos = double 50\<rparr> \<rparr> \<and>
   \<bar>val (width (boardSize (geometry customBordersExample))
          - width (apertureSize customBordersExample))
      - val (left (manualBorders customBordersExample)
          + right (manualBorders customBordersExample))\<bar>
     \<le> (\<bar>val (width (apertureSize customBordersExample))\<bar>
          + \<bar>val (left (manualBorders customBordersExample))\<bar>
          + \<bar>val (right (manualBorders customBordersExample))\<bar>) / 2 ^ 49 + 5 * tiny"
proof -
  have m: "mode customBordersExample = CustomBorders"
    by (simp add: customBordersExample_def)
  have a: "apertureSize customBordersExample = \<lparr>width = double 215.9, height = double 266.7\<rparr>"
    by (simp add: customBordersExample_def defaultConfig_def apertureSize_def double_eval)
  have b: "manualBorders customBordersExample
      = \<lparr>top_b = double 50, bottom = double 60, left = double 45, right = double 45\<rparr>"
    by (simp add: customBordersExample_def)
  have g: "geometry customBordersExample
     = \<lparr> boardSize = \<lparr>width = double 305.9, height = double 376.7\<rparr>,
         aperturePosition = \<lparr>x_pos = double 45, y_pos = double 50\<rparr> \<rparr>"
    using customBorders_geometry [OF m] a b by blast
  have f: "finite_number (width (boardSize (geometry customBordersExample))
          - width (apertureSize customBordersExample))"
    "finite_number (left (manualBorders customBordersExample)
          + right (manualBorders customBordersExample))"
    unfolding g a b by (simp_all add: double_eval)
  from customBorders_geometry [OF m] f g show ?thesis
    by blast
qed

subsection \<open>C5: the end-to-end example\<close>

text \<open>
  Claim C5, as amended. A photo of 203.2 by 254 with a border of 6.35, in FixedBoard
  mode on the preset \<^verbatim>\<open>"A2"\<close>, portrait, with a mount offset of 7.62, has the
  aperture 215.89999999999998 by 266.7, the board 420 by 594,
  \<open>aX = 102.05000000000001\<close> and \<open>aY = 156.03\<close>, where each decimal stands for the
  binary64 value nearest to it. These are within \<open>10 ^ - 13\<close> of 215.9, 266.7,
  102.05 and 156.03. The fields the example does not fix are arbitrary.
\<close>

theorem default_example:
  "apertureSize
     \<lparr> photoWidth = double 203.2, photoHeight = double 254, photoBorder = double 6.35,
       underlap = u, mountOffset = double 7.62, minBorderWidth = mb, boardPreset = ''A2'',
       customBoardSize = cb, mode = FixedBoard, manualBorders = bs,
       orientation = portrait \<rparr>
     = \<lparr>width = double 215.89999999999998, height = double 266.7\<rparr> \<and>
   geometry
     \<lparr> photoWidth = double 203.2, photoHeight = double 254, photoBorder = double 6.35,
       underlap = u, mountOffset = double 7.62, minBorderWidth = mb, boardPreset = ''A2'',
       customBoardSize = cb, mode = FixedBoard, manualBorders = bs,
       orientation = portrait \<rparr>
     = \<lparr> boardSize = \<lparr>width = double 420, height = double 594\<rparr>,
         aperturePosition = \<lparr>x_pos = double 102.05000000000001, y_pos = double 156.03\<rparr> \<rparr> \<and>
   \<bar>val (double 215.89999999999998) - 215.9\<bar> \<le> 1 / 10 ^ 13 \<and>
   \<bar>val (double 266.7) - 266.7\<bar> \<le> 1 / 10 ^ 13 \<and>
   val (double 420) = 420 \<and>
   val (double 594) = 594 \<and>
   \<bar>val (double 102.05000000000001) - 102.05\<bar> \<le> 1 / 10 ^ 13 \<and>
   \<bar>val (double 156.03) - 156.03\<bar> \<le> 1 / 10 ^ 13"
proof -
  have 1: "apertureSize
     \<lparr> photoWidth = double 203.2, photoHeight = double 254, photoBorder = double 6.35,
       underlap = u, mountOffset = double 7.62, minBorderWidth = mb, boardPreset = ''A2'',
       customBoardSize = cb, mode = FixedBoard, manualBorders = bs,
       orientation = portrait \<rparr>
     = \<lparr>width = double 215.89999999999998, height = double 266.7\<rparr>"
    by (simp add: apertureSize_def double_eval)
  have 2: "geometry
     \<lparr> photoWidth = double 203.2, photoHeight = double 254, photoBorder = double 6.35,
       underlap = u, mountOffset = double 7.62, minBorderWidth = mb, boardPreset = ''A2'',
       customBoardSize = cb, mode = FixedBoard, manualBorders = bs,
       orientation = portrait \<rparr>
     = \<lparr> boardSize = \<lparr>width = double 420, height = double 594\<rparr>,
         aperturePosition = \<lparr>x_pos = double 102.05000000000001, y_pos = double 156.03\<rparr> \<rparr>"
    by (simp add: geometry_def boardAndAperture_def apertureSize_def PAPER_SIZES_def
        double_eval)
  have 3: "\<bar>val (double 215.89999999999998) - 215.9\<bar> \<le> 1 / 10 ^ 13"
    "\<bar>val (double 266.7) - 266.7\<bar> \<le> 1 / 10 ^ 13"
    "val (double 420) = 420"
    "val (double 594) = 594"
    "\<bar>val (double 102.05000000000001) - 102.05\<bar> \<le> 1 / 10 ^ 13"
    "\<bar>val (double 156.03) - 156.03\<bar> \<le> 1 / 10 ^ 13"
    by (simp_all add: double_eval)
  from 1 2 3 show ?thesis by blast
qed

theorem default_example_counterexample:
  "apertureSize defaultConfig
     = \<lparr>width = double 215.89999999999998, height = double 266.7\<rparr> \<and>
   width (apertureSize defaultConfig) \<noteq> double 215.9 \<and>
   val (width (apertureSize defaultConfig)) \<noteq> 215.9 \<and>
   x_pos (aperturePosition (geometry defaultConfig)) = double 102.05000000000001 \<and>
   x_pos (aperturePosition (geometry defaultConfig)) \<noteq> double 102.05 \<and>
   val (x_pos (aperturePosition (geometry defaultConfig))) \<noteq> 102.05"
proof -
  have "double 215.89999999999998 \<noteq> double 215.9"
    "val (double 215.89999999999998) \<noteq> 215.9"
    "double 102.05000000000001 \<noteq> double 102.05"
    "val (double 102.05000000000001) \<noteq> 102.05"
    by (simp_all add: double_eval)
  then show ?thesis
    by (simp add: apertureSize_default geometry_default)
qed

subsection \<open>C6: the weighted bottom\<close>

text \<open>
  Claim C6, as amended. In FixedBoard mode, every other field being the same, let
  the top and bottom margins at \<open>mountOffset = k > 0\<close> and at \<open>mountOffset = 0\<close> be
  finite. Then the bottom margin less the top margin at offset \<open>k\<close> is \<open>2 * k\<close> more
  than at offset \<open>0\<close>, up to rounding: the two sides differ by at most \<open>2 ^ - 47\<close>
  times the sum of the magnitudes of the board height, the aperture height and \<open>k\<close>,
  plus \<open>16 * tiny\<close>. At offset \<open>0\<close> the two margins differ by at most \<open>2 ^ - 48\<close>
  times the sum of the magnitudes of the two heights, plus \<open>8 * tiny\<close>; and at
  offset \<open>k\<close> their difference is within \<open>2 ^ - 48\<close> times the sum of the three
  magnitudes, plus \<open>8 * tiny\<close>, of \<open>2 * k\<close>.
\<close>

theorem fixedBoard_offset_weights_bottom:
  assumes "mode c = FixedBoard" and "0 < k"
    and "finite_number (topMargin (c\<lparr>mountOffset := Fin k\<rparr>))"
    and "finite_number (bottomMargin (c\<lparr>mountOffset := Fin k\<rparr>))"
    and "finite_number (topMargin (c\<lparr>mountOffset := Fin 0\<rparr>))"
    and "finite_number (bottomMargin (c\<lparr>mountOffset := Fin 0\<rparr>))"
  shows
    "\<bar>(val (bottomMargin (c\<lparr>mountOffset := Fin k\<rparr>))
          - val (topMargin (c\<lparr>mountOffset := Fin k\<rparr>)))
        - (val (bottomMargin (c\<lparr>mountOffset := Fin 0\<rparr>))
            - val (topMargin (c\<lparr>mountOffset := Fin 0\<rparr>)))
        - 2 * k\<bar>
       \<le> (\<bar>val (height (boardSize (geometry c)))\<bar> + \<bar>val (height (apertureSize c))\<bar> + \<bar>k\<bar>)
            / 2 ^ 47 + 16 * tiny \<and>
     \<bar>val (bottomMargin (c\<lparr>mountOffset := Fin 0\<rparr>))
        - val (topMargin (c\<lparr>mountOffset := Fin 0\<rparr>))\<bar>
       \<le> (\<bar>val (height (boardSize (geometry c)))\<bar> + \<bar>val (height (apertureSize c))\<bar>)
            / 2 ^ 48 + 8 * tiny \<and>
     \<bar>(val (bottomMargin (c\<lparr>mountOffset := Fin k\<rparr>))
          - val (topMargin (c\<lparr>mountOffset := Fin k\<rparr>)))
        - 2 * k\<bar>
       \<le> (\<bar>val (height (boardSize (geometry c)))\<bar> + \<bar>val (height (apertureSize c))\<bar> + \<bar>k\<bar>)
            / 2 ^ 48 + 8 * tiny"
proof -
  define b where "b = height (boardSize (geometry c))"
  define a where "a = height (apertureSize c)"
  have top: "topMargin (c\<lparr>mountOffset := Fin j\<rparr>) = half (b - a) - Fin j" for j
    using assms(1)
    by (simp add: topMargin_def aperturePosition_FixedBoard boardSize_mountOffset_update
        apertureSize_mountOffset_update a_def b_def)
  have bot: "bottomMargin (c\<lparr>mountOffset := Fin j\<rparr>) = (b - (half (b - a) - Fin j)) - a" for j
    using assms(1)
    by (simp add: bottomMargin_def aperturePosition_FixedBoard boardSize_mountOffset_update
        apertureSize_mountOffset_update a_def b_def)
  have margins: "\<bar>(val (bottomMargin (c\<lparr>mountOffset := Fin j\<rparr>))
          - val (topMargin (c\<lparr>mountOffset := Fin j\<rparr>))) - 2 * j\<bar>
      \<le> (\<bar>val b\<bar> + \<bar>val a\<bar> + \<bar>j\<bar>) / 2 ^ 48 + 8 * tiny"
    if "finite_number (topMargin (c\<lparr>mountOffset := Fin j\<rparr>))"
      and "finite_number (bottomMargin (c\<lparr>mountOffset := Fin j\<rparr>))" for j
  proof -
    from that obtain tv bv where
      "half (b - a) - Fin j = Fin tv" "(b - (half (b - a) - Fin j)) - a = Fin bv"
      unfolding top bot by (auto simp: finite_number_iff)
    with margin_error [of b a "Fin j" tv bv] show ?thesis
      by (simp add: top bot)
  qed
  define Dk where "Dk = val (bottomMargin (c\<lparr>mountOffset := Fin k\<rparr>))
          - val (topMargin (c\<lparr>mountOffset := Fin k\<rparr>))"
  define D0 where "D0 = val (bottomMargin (c\<lparr>mountOffset := Fin 0\<rparr>))
          - val (topMargin (c\<lparr>mountOffset := Fin 0\<rparr>))"
  define S where "S = \<bar>val b\<bar> + \<bar>val a\<bar>"
  have S0: "0 \<le> S"
    by (simp add: S_def)
  have ek: "\<bar>Dk - 2 * k\<bar> \<le> (S + \<bar>k\<bar>) / 2 ^ 48 + 8 * tiny"
    using margins [OF assms(3,4)] by (simp add: Dk_def S_def)
  have e0: "\<bar>D0\<bar> \<le> S / 2 ^ 48 + 8 * tiny"
    using margins [OF assms(5,6)] by (simp add: D0_def S_def)
  have "\<bar>Dk - D0 - 2 * k\<bar> \<le> \<bar>Dk - 2 * k\<bar> + \<bar>D0\<bar>"
    by linarith
  also have "\<dots> \<le> (S + \<bar>k\<bar>) / 2 ^ 48 + 8 * tiny + (S / 2 ^ 48 + 8 * tiny)"
    using ek e0 by linarith
  also have "\<dots> \<le> (S + \<bar>k\<bar>) / 2 ^ 47 + 16 * tiny"
    using S0 by (simp add: add_divide_distrib)
  finally have ed: "\<bar>Dk - D0 - 2 * k\<bar> \<le> (S + \<bar>k\<bar>) / 2 ^ 47 + 16 * tiny" .
  from ed e0 ek show ?thesis
    unfolding Dk_def D0_def S_def a_def b_def by simp
qed

theorem fixedBoard_offset_counterexample:
  "mode defaultConfig = FixedBoard \<and>
   mountOffset defaultConfig = double 7.62 \<and>
   topMargin defaultConfig = double 156.03 \<and>
   bottomMargin defaultConfig = double 171.27000000000004 \<and>
   topMargin centredExample = double 163.65 \<and>
   bottomMargin centredExample = double 163.65000000000003 \<and>
   bottomMargin centredExample \<noteq> topMargin centredExample \<and>
   val (bottomMargin defaultConfig) - val (topMargin defaultConfig)
     \<noteq> 2 * val (mountOffset defaultConfig) \<and>
   (val (bottomMargin defaultConfig) - val (topMargin defaultConfig))
       - (val (bottomMargin centredExample) - val (topMargin centredExample))
     \<noteq> 2 * val (mountOffset defaultConfig) \<and>
   bottomMargin defaultConfig - topMargin defaultConfig = double 15.240000000000038 \<and>
   double 2 * mountOffset defaultConfig = double 15.24"
proof -
  have a: "apertureSize centredExample
      = \<lparr>width = double 215.89999999999998, height = double 266.7\<rparr>"
    by (simp add: centredExample_def defaultConfig_def apertureSize_def double_eval)
  have g: "geometry centredExample
      = \<lparr> boardSize = \<lparr>width = double 420, height = double 594\<rparr>,
          aperturePosition = \<lparr>x_pos = double 102.05000000000001, y_pos = double 163.65\<rparr> \<rparr>"
    by (simp add: centredExample_def defaultConfig_def geometry_def boardAndAperture_def
        apertureSize_def PAPER_SIZES_def double_eval)
  have tk: "topMargin defaultConfig = double 156.03"
    by (simp add: topMargin_def geometry_default)
  have bk: "bottomMargin defaultConfig = double 171.27000000000004"
    by (simp add: bottomMargin_def geometry_default apertureSize_default) (simp add: double_eval)
  have t0: "topMargin centredExample = double 163.65"
    by (simp add: topMargin_def g)
  have b0: "bottomMargin centredExample = double 163.65000000000003"
    by (simp add: bottomMargin_def g a) (simp add: double_eval)
  have k: "mountOffset defaultConfig = double 7.62" "mode defaultConfig = FixedBoard"
    by (simp_all add: defaultConfig_def)
  show ?thesis
    unfolding tk bk t0 b0 k by (simp add: double_eval)
qed

theorem fixedBoard_offset_weights_bottom_witness:
  "\<bar>(val (bottomMargin (defaultConfig\<lparr>mountOffset := Fin (val (double 7.62))\<rparr>))
        - val (topMargin (defaultConfig\<lparr>mountOffset := Fin (val (double 7.62))\<rparr>)))
      - (val (bottomMargin (defaultConfig\<lparr>mountOffset := Fin 0\<rparr>))
          - val (topMargin (defaultConfig\<lparr>mountOffset := Fin 0\<rparr>)))
      - 2 * val (double 7.62)\<bar>
     \<le> (\<bar>val (height (boardSize (geometry defaultConfig)))\<bar>
          + \<bar>val (height (apertureSize defaultConfig))\<bar> + \<bar>val (double 7.62)\<bar>)
          / 2 ^ 47 + 16 * tiny \<and>
   \<bar>val (bottomMargin (defaultConfig\<lparr>mountOffset := Fin 0\<rparr>))
      - val (topMargin (defaultConfig\<lparr>mountOffset := Fin 0\<rparr>))\<bar>
     \<le> (\<bar>val (height (boardSize (geometry defaultConfig)))\<bar>
          + \<bar>val (height (apertureSize defaultConfig))\<bar>) / 2 ^ 48 + 8 * tiny"
proof -
  have m: "mode defaultConfig = FixedBoard"
    by (simp add: defaultConfig_def)
  have k: "0 < val (double 7.62)"
    by (simp add: double_eval)
  have f: "finite_number (topMargin (defaultConfig\<lparr>mountOffset := Fin (val (double 7.62))\<rparr>))"
    "finite_number (bottomMargin (defaultConfig\<lparr>mountOffset := Fin (val (double 7.62))\<rparr>))"
    "finite_number (topMargin (defaultConfig\<lparr>mountOffset := Fin 0\<rparr>))"
    "finite_number (bottomMargin (defaultConfig\<lparr>mountOffset := Fin 0\<rparr>))"
    by (simp_all add: topMargin_def bottomMargin_def defaultConfig_def geometry_def
        boardAndAperture_def apertureSize_def PAPER_SIZES_def double_eval)
  from fixedBoard_offset_weights_bottom [OF m k f] show ?thesis
    by blast
qed

subsection \<open>C7: the orientation toggle\<close>

text \<open>
  Claim C7. The toggle exchanges \<open>photoWidth\<close> with \<open>photoHeight\<close> and the width of
  \<open>customBoardSize\<close> with its height, flips \<open>orientation\<close>, and leaves every other
  field as it was. Applied twice it gives the configuration back.
\<close>

theorem toggleOrientation_involutive:
  "photoWidth (toggleOrientation c) = photoHeight c \<and>
   photoHeight (toggleOrientation c) = photoWidth c \<and>
   width (customBoardSize (toggleOrientation c)) = height (customBoardSize c) \<and>
   height (customBoardSize (toggleOrientation c)) = width (customBoardSize c) \<and>
   orientation (toggleOrientation c)
     = (case orientation c of portrait \<Rightarrow> landscape | landscape \<Rightarrow> portrait) \<and>
   photoBorder (toggleOrientation c) = photoBorder c \<and>
   underlap (toggleOrientation c) = underlap c \<and>
   mountOffset (toggleOrientation c) = mountOffset c \<and>
   minBorderWidth (toggleOrientation c) = minBorderWidth c \<and>
   boardPreset (toggleOrientation c) = boardPreset c \<and>
   mode (toggleOrientation c) = mode c \<and>
   manualBorders (toggleOrientation c) = manualBorders c \<and>
   toggleOrientation (toggleOrientation c) = c"
  by (cases "orientation c") (simp_all add: toggleOrientation_def Let_def)

lemma apertureSize_not_NaN:
  assumes "finiteConfig c"
  shows "width (apertureSize c) \<noteq> NaN" and "height (apertureSize c) \<noteq> NaN"
proof -
  from assms have f: "finite_number (photoWidth c)" "finite_number (photoHeight c)"
    "finite_number (photoBorder c)"
    by (simp_all add: finiteConfig_def numericFields_def)
  have "finite_number (double 2)"
    by (simp add: double_2)
  with f(3) have "photoBorder c * double 2 \<noteq> NaN"
    by (rule finite_times_not_NaN)
  with f(1,2) show "width (apertureSize c) \<noteq> NaN" and "height (apertureSize c) \<noteq> NaN"
    by (simp_all add: apertureSize_def finite_plus_not_NaN)
qed

lemma fixedBoard_finite:
  assumes "mode c = FixedBoard" and "finiteConfig c"
  shows "finite_number (width (boardSize (geometry c)))"
    and "finite_number (height (boardSize (geometry c)))"
proof -
  have "finite_number (width (boardSize (geometry c))) \<and>
      finite_number (height (boardSize (geometry c)))"
  proof (cases "boardPreset c = ''Custom''")
    case True
    with assms show ?thesis
      by (simp add: boardSize_FixedBoard_Custom finiteConfig_def numericFields_def)
  next
    case False
    show ?thesis
    proof (cases "find (\<lambda>p. name p = boardPreset c) PAPER_SIZES")
      case None
      have "finite_number (double 420)" "finite_number (double 594)"
        using fallback_bounded by (auto intro: bounded_by_finite)
      then show ?thesis
        using boardSize_FixedBoard_absent [OF assms(1) False None] by (simp add: Math_finite)
    next
      case (Some p)
      then have "p \<in> set PAPER_SIZES"
        by (rule find_in_set)
      then have "finite_number (width p)" "finite_number (height p)"
        using PAPER_SIZES_bounded [of p] by (auto intro: bounded_by_finite)
      then show ?thesis
        using boardSize_FixedBoard_found [OF assms(1) False Some] by (simp add: Math_finite)
    qed
  qed
  then show "finite_number (width (boardSize (geometry c)))"
    and "finite_number (height (boardSize (geometry c)))"
    by simp_all
qed

lemma outputs_not_NaN:
  assumes "finiteConfig c"
  shows "list_all (\<lambda>x. x \<noteq> NaN) (outputs c)"
proof -
  note a = apertureSize_not_NaN [OF assms]
  from assms have f: "finite_number (mountOffset c)"
    "finite_number (left (manualBorders c))" "finite_number (right (manualBorders c))"
    "finite_number (top_b (manualBorders c))" "finite_number (bottom (manualBorders c))"
    by (simp_all add: finiteConfig_def numericFields_def)
  show ?thesis
  proof (cases "mode c")
    case FixedBoard
    note b = fixedBoard_finite [OF FixedBoard assms]
    have "half (width (boardSize (geometry c)) - width (apertureSize c)) \<noteq> NaN"
      "half (height (boardSize (geometry c)) - height (apertureSize c)) \<noteq> NaN"
      using a b by (simp_all add: half_not_NaN finite_minus_not_NaN)
    then show ?thesis
      using a b f(1)
      by (simp add: outputs_def aperturePosition_FixedBoard [OF FixedBoard]
          finite_minus_not_NaN finite_not_NaN)
  next
    case CustomBorders
    have "width (apertureSize c) + left (manualBorders c) \<noteq> NaN"
      "height (apertureSize c) + top_b (manualBorders c) \<noteq> NaN"
      using a f by (simp_all add: finite_plus_not_NaN)
    then show ?thesis
      using a f
      by (simp add: outputs_def geometry_CustomBorders [OF CustomBorders]
          finite_plus_not_NaN finite_not_NaN)
  qed
qed

lemma apertureSize_bounded:
  assumes "boundedConfig 1000 c"
  shows "bounded_by 1004 (width (apertureSize c))" and "bounded_by 1004 (height (apertureSize c))"
proof -
  from assms have f: "bounded_by 1000 (photoWidth c)" "bounded_by 1000 (photoHeight c)"
    "bounded_by 1000 (photoBorder c)"
    by (simp_all add: boundedConfig_def numericFields_def)
  have t: "bounded_by 1002 (photoBorder c * double 2)"
    using bounded_twice [OF f(3)] by simp
  have w: "bounded_by 1002 (photoWidth c)" and h: "bounded_by 1002 (photoHeight c)"
    using f(1,2) by (auto intro: bounded_by_mono)
  show "bounded_by 1004 (width (apertureSize c))"
    using bounded_plus [OF w t] by (simp add: apertureSize_def)
  show "bounded_by 1004 (height (apertureSize c))"
    using bounded_plus [OF h t] by (simp add: apertureSize_def)
qed

lemma fixedBoard_bounded:
  assumes "mode c = FixedBoard" and "boundedConfig 1000 c"
  shows "bounded_by 1000 (width (boardSize (geometry c)))"
    and "bounded_by 1000 (height (boardSize (geometry c)))"
proof -
  have "bounded_by 1000 (width (boardSize (geometry c))) \<and>
      bounded_by 1000 (height (boardSize (geometry c)))"
  proof (cases "boardPreset c = ''Custom''")
    case True
    with assms show ?thesis
      by (simp add: boardSize_FixedBoard_Custom boundedConfig_def numericFields_def)
  next
    case False
    show ?thesis
    proof (cases "find (\<lambda>p. name p = boardPreset c) PAPER_SIZES")
      case None
      show ?thesis
        using boardSize_FixedBoard_absent [OF assms(1) False None] fallback_bounded
        by (simp add: Math_bounded)
    next
      case (Some p)
      then have "p \<in> set PAPER_SIZES"
        by (rule find_in_set)
      then have "bounded_by 1000 (width p)" "bounded_by 1000 (height p)"
        using PAPER_SIZES_bounded [of p] by simp_all
      then show ?thesis
        using boardSize_FixedBoard_found [OF assms(1) False Some] by (simp add: Math_bounded)
    qed
  qed
  then show "bounded_by 1000 (width (boardSize (geometry c)))"
    and "bounded_by 1000 (height (boardSize (geometry c)))"
    by simp_all
qed

lemma outputs_finite:
  assumes "boundedConfig 1000 c"
  shows "list_all finite_number (outputs c)"
proof -
  note a = apertureSize_bounded [OF assms]
  from assms have f: "bounded_by 1000 (mountOffset c)"
    "bounded_by 1000 (left (manualBorders c))" "bounded_by 1000 (right (manualBorders c))"
    "bounded_by 1000 (top_b (manualBorders c))" "bounded_by 1000 (bottom (manualBorders c))"
    by (simp_all add: boundedConfig_def numericFields_def)
  show ?thesis
  proof (cases "mode c")
    case FixedBoard
    note b = fixedBoard_bounded [OF FixedBoard assms]
    have b4: "bounded_by 1004 (width (boardSize (geometry c)))"
      "bounded_by 1004 (height (boardSize (geometry c)))"
      using b by (auto intro: bounded_by_mono)
    have d: "bounded_by 1006 (width (boardSize (geometry c)) - width (apertureSize c))"
      "bounded_by 1006 (height (boardSize (geometry c)) - height (apertureSize c))"
      using bounded_minus [OF b4(1) a(1)] bounded_minus [OF b4(2) a(2)] by simp_all
    have h: "bounded_by 1007
        (half (width (boardSize (geometry c)) - width (apertureSize c)))"
      "bounded_by 1007
        (half (height (boardSize (geometry c)) - height (apertureSize c)))"
      using bounded_half [OF d(1)] bounded_half [OF d(2)] by simp_all
    have o: "bounded_by 1007 (mountOffset c)"
      using f(1) by (auto intro: bounded_by_mono)
    have y: "bounded_by 1009
        (half (height (boardSize (geometry c)) - height (apertureSize c)) - mountOffset c)"
      using bounded_minus [OF h(2) o] by simp
    show ?thesis
      using a b h(1) y
      by (simp add: outputs_def aperturePosition_FixedBoard [OF FixedBoard] bounded_by_finite)
  next
    case CustomBorders
    have l: "bounded_by 1004 (left (manualBorders c))" "bounded_by 1004 (top_b (manualBorders c))"
      using f by (auto intro: bounded_by_mono)
    have s: "bounded_by 1006 (width (apertureSize c) + left (manualBorders c))"
      "bounded_by 1006 (height (apertureSize c) + top_b (manualBorders c))"
      using bounded_plus [OF a(1) l(1)] bounded_plus [OF a(2) l(2)] by simp_all
    have r: "bounded_by 1006 (right (manualBorders c))" "bounded_by 1006 (bottom (manualBorders c))"
      using f by (auto intro: bounded_by_mono)
    have "bounded_by 1008
        (width (apertureSize c) + left (manualBorders c) + right (manualBorders c))"
      "bounded_by 1008
        (height (apertureSize c) + top_b (manualBorders c) + bottom (manualBorders c))"
      using bounded_plus [OF s(1) r(1)] bounded_plus [OF s(2) r(2)] by simp_all
    then show ?thesis
      using a f
      by (simp add: outputs_def geometry_CustomBorders [OF CustomBorders] bounded_by_finite)
  qed
qed

subsection \<open>C8: totality, and no clamping\<close>

text \<open>
  Claim C8, as amended. The source has no \<^verbatim>\<open>throw\<close> and no partial operation, so
  \<open>apertureSize\<close> and \<open>geometry\<close> have no error result: the calculator gives a result
  for every configuration. Nothing is clamped: for every configuration, with no
  condition on the sign or size of any field, the aperture is the photo plus twice
  the border; in CustomBorders mode the board is the aperture plus the borders and
  the position is the left and top border as they are; in FixedBoard mode the
  position is half the margin, less the offset vertically, and a custom board is
  taken as it is. When every numeric field is finite, none of the six results is
  NaN. When every numeric field is finite and of magnitude at most \<open>2 ^ 1000\<close>, the
  six results are finite.
\<close>

theorem geometry_total_unclamped:
  "apertureSize c
     = \<lparr> width = photoWidth c + double 2 * photoBorder c,
         height = photoHeight c + double 2 * photoBorder c \<rparr> \<and>
   (mode c = CustomBorders \<longrightarrow>
      geometry c =
        \<lparr> boardSize =
            \<lparr> width = width (apertureSize c) + left (manualBorders c)
                        + right (manualBorders c),
              height = height (apertureSize c) + top_b (manualBorders c)
                         + bottom (manualBorders c) \<rparr>,
          aperturePosition =
            \<lparr> x_pos = left (manualBorders c), y_pos = top_b (manualBorders c) \<rparr> \<rparr>) \<and>
   (mode c = FixedBoard \<longrightarrow>
      aperturePosition (geometry c) =
        \<lparr> x_pos = half (width (boardSize (geometry c)) - width (apertureSize c)),
          y_pos = half (height (boardSize (geometry c)) - height (apertureSize c))
                    - mountOffset c \<rparr>) \<and>
   (mode c = FixedBoard \<and> boardPreset c = ''Custom'' \<longrightarrow>
      boardSize (geometry c) = customBoardSize c) \<and>
   (finiteConfig c \<longrightarrow> list_all (\<lambda>x. x \<noteq> NaN) (outputs c)) \<and>
   (boundedConfig 1000 c \<longrightarrow> list_all finite_number (outputs c))"
  by (simp add: apertureSize_def times_number_commute [of "double 2"]
      geometry_CustomBorders aperturePosition_FixedBoard boardSize_FixedBoard_Custom
      outputs_not_NaN outputs_finite)

theorem geometry_overflow_counterexample:
  "finiteConfig overflowExample \<and>
   mode overflowExample = FixedBoard \<and>
   photoBorder overflowExample = double (10 ^ 308) \<and>
   finite_number (photoBorder overflowExample) \<and>
   width (apertureSize overflowExample) = Infinity \<and>
   height (apertureSize overflowExample) = Infinity \<and>
   x_pos (aperturePosition (geometry overflowExample)) = NegInfinity \<and>
   y_pos (aperturePosition (geometry overflowExample)) = NegInfinity \<and>
   bottomMargin overflowExample = NaN"
proof -
  have f: "finiteConfig overflowExample"
    by (simp add: finiteConfig_def numericFields_def overflowExample_def defaultConfig_def
        double_eval)
  have p: "finite_number (photoBorder overflowExample)"
    "photoBorder overflowExample = double (10 ^ 308)" "mode overflowExample = FixedBoard"
    by (simp_all add: overflowExample_def defaultConfig_def double_eval)
  have a: "apertureSize overflowExample = \<lparr>width = Infinity, height = Infinity\<rparr>"
    by (simp add: overflowExample_def defaultConfig_def apertureSize_def double_eval)
  have g: "geometry overflowExample
      = \<lparr> boardSize = \<lparr>width = double 420, height = double 594\<rparr>,
          aperturePosition = \<lparr>x_pos = NegInfinity, y_pos = NegInfinity\<rparr> \<rparr>"
    unfolding geometry_def a
    by (simp add: overflowExample_def defaultConfig_def boardAndAperture_def PAPER_SIZES_def
        double_eval)
  have b: "bottomMargin overflowExample = NaN"
    by (simp add: bottomMargin_def g a) (simp add: double_eval)
  from f p a g b show ?thesis
    by simp
qed

theorem geometry_total_unclamped_witness:
  "geometry negativeBordersExample
     = \<lparr> boardSize = \<lparr>width = double (- 94.10000000000002), height = double 296.7\<rparr>,
         aperturePosition = \<lparr>x_pos = double (- 10), y_pos = double (- 20)\<rparr> \<rparr> \<and>
   list_all finite_number (outputs negativeBordersExample) \<and>
   aperturePosition (geometry largeOffsetExample)
     = \<lparr>x_pos = double (- 46.35000000000002), y_pos = double (- 36.349999999999994)\<rparr> \<and>
   list_all (\<lambda>x. x \<noteq> NaN) (outputs largeOffsetExample) \<and>
   list_all finite_number (outputs largeOffsetExample) \<and>
   apertureSize (defaultConfig\<lparr>photoBorder := double (- 150)\<rparr>)
     = \<lparr>width = double (- 96.80000000000001), height = double (- 46)\<rparr> \<and>
   boardSize (geometry (defaultConfig\<lparr>boardPreset := ''Custom'',
       customBoardSize := \<lparr>width = double (- 100), height = double 50\<rparr>\<rparr>))
     = \<lparr>width = double (- 100), height = double 50\<rparr>"
proof -
  note n = geometry_total_unclamped [of negativeBordersExample]
  note l = geometry_total_unclamped [of largeOffsetExample]
  note p = geometry_total_unclamped [of "defaultConfig\<lparr>photoBorder := double (- 150)\<rparr>"]
  note c = geometry_total_unclamped [of "defaultConfig\<lparr>boardPreset := ''Custom'',
       customBoardSize := \<lparr>width = double (- 100), height = double 50\<rparr>\<rparr>"]
  have bn: "boundedConfig 1000 negativeBordersExample"
    by (simp add: boundedConfig_def numericFields_def negativeBordersExample_def
        defaultConfig_def double_eval)
  have bl: "boundedConfig 1000 largeOffsetExample" and fl: "finiteConfig largeOffsetExample"
    by (simp_all add: boundedConfig_def finiteConfig_def numericFields_def
        largeOffsetExample_def defaultConfig_def double_eval)
  have an: "apertureSize negativeBordersExample
      = \<lparr>width = double 215.89999999999998, height = double 266.7\<rparr>"
    by (simp add: negativeBordersExample_def defaultConfig_def apertureSize_def double_eval)
  have "geometry negativeBordersExample
     = \<lparr> boardSize =
           \<lparr> width = double 215.89999999999998 + double (- 10) + double (- 300),
             height = double 266.7 + double (- 20) + double 50 \<rparr>,
         aperturePosition = \<lparr>x_pos = double (- 10), y_pos = double (- 20)\<rparr> \<rparr>"
    using n [THEN conjunct2, THEN conjunct1] by (simp add: negativeBordersExample_def an [unfolded negativeBordersExample_def])
  then have 1: "geometry negativeBordersExample
     = \<lparr> boardSize = \<lparr>width = double (- 94.10000000000002), height = double 296.7\<rparr>,
         aperturePosition = \<lparr>x_pos = double (- 10), y_pos = double (- 20)\<rparr> \<rparr>"
    by (simp add: double_eval)
  have 2: "list_all finite_number (outputs negativeBordersExample)"
    using n bn by blast
  have al: "apertureSize largeOffsetExample = \<lparr>width = double 512.7, height = double 266.7\<rparr>"
    by (simp add: largeOffsetExample_def defaultConfig_def apertureSize_def double_eval)
  have gl: "boardSize (geometry largeOffsetExample) = \<lparr>width = double 420, height = double 594\<rparr>"
    by (simp add: largeOffsetExample_def defaultConfig_def geometry_def boardAndAperture_def
        PAPER_SIZES_def split_beta Let_def double_eval)
  have "aperturePosition (geometry largeOffsetExample)
     = \<lparr> x_pos = half (double 420 - double 512.7),
         y_pos = half (double 594 - double 266.7) - double 200 \<rparr>"
    using l [THEN conjunct2, THEN conjunct2, THEN conjunct1]
    by (simp add: al gl) (simp add: largeOffsetExample_def defaultConfig_def)
  then have 3: "aperturePosition (geometry largeOffsetExample)
     = \<lparr>x_pos = double (- 46.35000000000002), y_pos = double (- 36.349999999999994)\<rparr>"
    by (simp add: double_eval)
  have 4: "list_all (\<lambda>x. x \<noteq> NaN) (outputs largeOffsetExample)"
    and 5: "list_all finite_number (outputs largeOffsetExample)"
    using l bl fl by blast+
  have "apertureSize (defaultConfig\<lparr>photoBorder := double (- 150)\<rparr>)
     = \<lparr> width = double 203.2 + double 2 * double (- 150),
         height = double 254 + double 2 * double (- 150) \<rparr>"
    using p [THEN conjunct1] by (simp add: defaultConfig_def)
  then have 6: "apertureSize (defaultConfig\<lparr>photoBorder := double (- 150)\<rparr>)
     = \<lparr>width = double (- 96.80000000000001), height = double (- 46)\<rparr>"
    by (simp add: double_eval)
  have 7: "boardSize (geometry (defaultConfig\<lparr>boardPreset := ''Custom'',
       customBoardSize := \<lparr>width = double (- 100), height = double 50\<rparr>\<rparr>))
     = \<lparr>width = double (- 100), height = double 50\<rparr>"
    using c by (simp add: defaultConfig_def)
  from 1 2 3 4 5 6 7 show ?thesis
    by blast
qed

subsection \<open>C9: what the results depend on\<close>

text \<open>
  Claim C9. Two configurations in FixedBoard mode with the same \<open>boardPreset\<close>,
  \<open>customBoardSize\<close> and \<open>orientation\<close> have the same board, whatever their other
  fields are. In either mode the aperture size is the same after any change of
  \<open>mountOffset\<close>, \<open>underlap\<close>, \<open>boardPreset\<close>, \<open>customBoardSize\<close> and
  \<open>manualBorders\<close>.
\<close>

theorem geometry_frame:
  "(mode c1 = FixedBoard \<and> mode c2 = FixedBoard \<and> boardPreset c1 = boardPreset c2 \<and>
    customBoardSize c1 = customBoardSize c2 \<and> orientation c1 = orientation c2 \<longrightarrow>
      boardSize (geometry c1) = boardSize (geometry c2)) \<and>
   apertureSize (c\<lparr> mountOffset := k, underlap := u, boardPreset := p,
        customBoardSize := d, manualBorders := b \<rparr>) = apertureSize c"
  by (simp add: geometry_def boardAndAperture_def Let_def split_beta apertureSize_def)

theorem geometry_frame_witness:
  "boardSize (geometry
      (defaultConfig\<lparr> mountOffset := double 0, underlap := double 3, photoWidth := double 100,
          photoHeight := double 150,
          photoBorder := double 10,
          manualBorders := \<lparr>top_b = double 1, bottom = double 2, left = double 3, right = double 4\<rparr> \<rparr>))
     = boardSize (geometry defaultConfig)"
  using geometry_frame [of
      "defaultConfig\<lparr> mountOffset := double 0, underlap := double 3, photoWidth := double 100,
          photoHeight := double 150,
          photoBorder := double 10,
          manualBorders := \<lparr>top_b = double 1, bottom = double 2, left = double 3, right = double 4\<rparr> \<rparr>"
      defaultConfig]
  by (simp add: defaultConfig_def)

subsection \<open>C10: the advisory mapping\<close>

text \<open>
  Claim C10. Whenever the mapping returns an advice, the advice has a suggested
  configuration whose left and right borders are the same value, the \<^verbatim>\<open>sideBorder\<close>
  of the response, and whose mode is \<open>CustomBorders\<close>. A response with an object under
  \<^verbatim>\<open>suggestedValues\<close> is accepted; a response with no \<^verbatim>\<open>suggestedValues\<close> ends in
  the error \<^verbatim>\<open>"Invalid response from AI"\<close>; and the call ends in an error exactly
  when the response has no truthy \<^verbatim>\<open>suggestedValues\<close>, so there is no partial
  result.
\<close>

theorem getMountAdvice_result_sides:
  "(getMountAdvice_result result = Inr advice \<longrightarrow>
      (\<exists>sc sv. suggestedConfig advice = Some sc \<and>
         getProp result ''suggestedValues'' = Inr sv \<and> truthy sv \<and>
         getProp sv ''sideBorder'' = Inr (left (sc_manualBorders sc)) \<and>
         left (sc_manualBorders sc) = right (sc_manualBorders sc) \<and>
         sc_mode sc = CustomBorders)) \<and>
   (result = JObject m \<and> m ''suggestedValues'' = Some (JObject vs) \<longrightarrow>
      (\<exists>a. getMountAdvice_result result = Inr a)) \<and>
   (result = JObject m \<and> m ''suggestedValues'' = None \<longrightarrow>
      getMountAdvice_result result = Inl (Error ''Invalid response from AI'')) \<and>
   ((\<exists>e. getMountAdvice_result result = Inl e) \<longleftrightarrow>
      \<not> (\<exists>sv. getProp result ''suggestedValues'' = Inr sv \<and> truthy sv))"
proof (intro conjI impI)
  assume ok: "getMountAdvice_result result = Inr advice"
  have "\<exists>sv. getProp result ''suggestedValues'' = Inr sv \<and> truthy sv"
  proof (rule ccontr)
    assume "\<not> ?thesis"
    then have "\<exists>e. getMountAdvice_result result = Inl e"
      by (rule getMountAdvice_result_rejects)
    with ok show False by simp
  qed
  then obtain sv where sv: "getProp result ''suggestedValues'' = Inr sv" "truthy sv"
    by blast
  from getMountAdvice_result_accepts [OF sv] ok sv
  show "\<exists>sc sv. suggestedConfig advice = Some sc \<and>
         getProp result ''suggestedValues'' = Inr sv \<and> truthy sv \<and>
         getProp sv ''sideBorder'' = Inr (left (sc_manualBorders sc)) \<and>
         left (sc_manualBorders sc) = right (sc_manualBorders sc) \<and>
         sc_mode sc = CustomBorders"
    by auto
next
  assume "result = JObject m \<and> m ''suggestedValues'' = Some (JObject vs)"
  then have "getProp result ''suggestedValues'' = Inr (JObject vs)" "truthy (JObject vs)"
    by simp_all
  from getMountAdvice_result_accepts [OF this]
  show "\<exists>a. getMountAdvice_result result = Inr a" by blast
next
  assume "result = JObject m \<and> m ''suggestedValues'' = None"
  then show "getMountAdvice_result result = Inl (Error ''Invalid response from AI'')"
    by (simp add: getMountAdvice_result_def)
next
  show "(\<exists>e. getMountAdvice_result result = Inl e) \<longleftrightarrow>
      \<not> (\<exists>sv. getProp result ''suggestedValues'' = Inr sv \<and> truthy sv)"
  proof
    assume "\<exists>e. getMountAdvice_result result = Inl e"
    then show "\<not> (\<exists>sv. getProp result ''suggestedValues'' = Inr sv \<and> truthy sv)"
      using getMountAdvice_result_accepts by fastforce
  next
    assume "\<not> (\<exists>sv. getProp result ''suggestedValues'' = Inr sv \<and> truthy sv)"
    then show "\<exists>e. getMountAdvice_result result = Inl e"
      by (rule getMountAdvice_result_rejects)
  qed
qed

theorem getMountAdvice_result_sides_witness:
  "(\<exists>sc sv. suggestedConfig sampleAdvice = Some sc \<and>
      getProp (JObject sampleResult) ''suggestedValues'' = Inr sv \<and> truthy sv \<and>
      getProp sv ''sideBorder'' = Inr (left (sc_manualBorders sc)) \<and>
      left (sc_manualBorders sc) = right (sc_manualBorders sc) \<and>
      sc_mode sc = CustomBorders) \<and>
   (\<exists>a. getMountAdvice_result (JObject sampleResult) = Inr a) \<and>
   getMountAdvice_result (JObject Map.empty) = Inl (Error ''Invalid response from AI'') \<and>
   (\<exists>e. getMountAdvice_result (JObject [''suggestedValues'' \<mapsto> JNumber (double 0)]) = Inl e)"
proof -
  note accepted =
    getMountAdvice_result_sides [of "JObject sampleResult" sampleAdvice sampleResult sampleValues]
  note missing =
    getMountAdvice_result_sides [of "JObject Map.empty" sampleAdvice Map.empty sampleValues]
  note falsy =
    getMountAdvice_result_sides [of "JObject [''suggestedValues'' \<mapsto> JNumber (double 0)]"
      sampleAdvice Map.empty sampleValues]
  have 1: "\<exists>sc sv. suggestedConfig sampleAdvice = Some sc \<and>
      getProp (JObject sampleResult) ''suggestedValues'' = Inr sv \<and> truthy sv \<and>
      getProp sv ''sideBorder'' = Inr (left (sc_manualBorders sc)) \<and>
      left (sc_manualBorders sc) = right (sc_manualBorders sc) \<and>
      sc_mode sc = CustomBorders"
    using accepted [THEN conjunct1] sample_eval by (rule mp)
  have 2: "\<exists>a. getMountAdvice_result (JObject sampleResult) = Inr a"
    using accepted [THEN conjunct2, THEN conjunct1] by (simp add: sampleResult_def)
  have 3: "getMountAdvice_result (JObject Map.empty) = Inl (Error ''Invalid response from AI'')"
    using missing [THEN conjunct2, THEN conjunct2, THEN conjunct1] by simp
  have 4: "\<exists>e. getMountAdvice_result (JObject [''suggestedValues'' \<mapsto> JNumber (double 0)]) = Inl e"
    using falsy [THEN conjunct2, THEN conjunct2, THEN conjunct2] by (simp add: double_0)
  from 1 2 3 4 show ?thesis by blast
qed


end
